theory Spec2Isabelle
  imports Complex_Main
begin

section \<open>Signed wrist flexion / extension angle: the reference module wrist-angle\<close>

text \<open>
  The reference module works on numpy arrays.  An array of shape \<open>(N, 3, 3)\<close> is a list of
  \<open>N\<close> frames, each frame a list of three points (ELBOW, WRIST, \<open>MIDDLE_MCP\<close>), each point a
  list of three coordinates; an array of shape \<open>(3, 3)\<close> is one such frame given directly.
  Exceptions of the interpreter and of numpy are values of \<open>pyerr\<close>; a floating point
  result that would be NaN is \<open>NaNResult\<close>, and an element of an array that was allocated
  and never written is \<open>Uninitialised\<close>.
\<close>

datatype pyerr = ValueError | IndexError | NaNResult | Uninitialised

datatype ndarray = Arr2 "real list list" | Arr3 "real list list list"

definition DEG :: real where
  "DEG = 180 / pi"

text \<open>\<open>np.atleast_3d\<close>: an array with three axes is returned as it is; a two-dimensional
  array of shape \<open>(M, N)\<close> becomes a view of shape \<open>(M, N, 1)\<close>, the new axis is appended.\<close>

fun atleast_3d :: "ndarray \<Rightarrow> real list list list" where
  "atleast_3d (Arr3 a) = a"
| "atleast_3d (Arr2 m) = map (map (\<lambda>x. [x])) m"

definition linalg_norm :: "real list \<Rightarrow> real" where
  "linalg_norm v = sqrt (sum_list (map (\<lambda>x. x * x) v))"

text \<open>Division of an array by a scalar; a zero divisor is what produces NaN (0/0).\<close>

definition np_divide :: "real list \<Rightarrow> real \<Rightarrow> pyerr + real list" where
  "np_divide v n = (if n = 0 then Inl NaNResult else Inr (map (\<lambda>x. x / n) v))"

text \<open>\<open>_unit\<close>: return unit vector; if the norm is 0 return the original vector.\<close>

definition py_unit :: "real list \<Rightarrow> pyerr + real list" where
  "py_unit v = (let n = linalg_norm v in if n > 0 then np_divide v n else Inr v)"

definition clip :: "real \<Rightarrow> real \<Rightarrow> real \<Rightarrow> real" where
  "clip lo hi x = (if x < lo then lo else if x > hi then hi else x)"

text \<open>\<open>np.arccos\<close> is NaN outside \<open>[-1, 1]\<close>.\<close>

definition np_arccos :: "real \<Rightarrow> pyerr + real" where
  "np_arccos d = (if - 1 \<le> d \<and> d \<le> 1 then Inr (arccos d) else Inl NaNResult)"

text \<open>\<open>np.cross\<close> on the last axis: vectors of dimension 2 or 3 only, anything else raises
  ValueError; two vectors of dimension 2 give the scalar z component, a vector of dimension 2
  beside one of dimension 3 has z = 0.\<close>

definition pad3 :: "real list \<Rightarrow> real list" where
  "pad3 v = (if length v = 2 then v @ [0] else v)"

definition np_cross :: "real list \<Rightarrow> real list \<Rightarrow> pyerr + real list" where
  "np_cross a b =
     (if (length a \<noteq> 2 \<and> length a \<noteq> 3) \<or> (length b \<noteq> 2 \<and> length b \<noteq> 3) then Inl ValueError
      else if length a = 2 \<and> length b = 2 then Inr [a ! 0 * b ! 1 - a ! 1 * b ! 0]
      else let a = pad3 a; b = pad3 b in
        Inr [a ! 1 * b ! 2 - a ! 2 * b ! 1,
             a ! 2 * b ! 0 - a ! 0 * b ! 2,
             a ! 0 * b ! 1 - a ! 1 * b ! 0])"

text \<open>The body of \<open>wrist_angle\<close> up to \<open>signed_theta\<close>, for one index of the first axis.
  The slices \<open>frames[:, 0]\<close>, \<open>frames[:, 1]\<close>, \<open>frames[:, 2]\<close> need three entries on the
  second axis, \<open>cross[:, 2]\<close> needs a third component and \<open>frames[:, 1, 0]\<close> a first one.\<close>

definition frame_angle :: "real list list \<Rightarrow> pyerr + real" where
  "frame_angle f =
     (if length f < 3 then Inl IndexError
      else
        let forearm = map2 (-) (f ! 1) (f ! 0);
            handvec = map2 (-) (f ! 2) (f ! 1)
        in case py_unit forearm of Inl e \<Rightarrow> Inl e | Inr u_for \<Rightarrow>
           (case py_unit handvec of Inl e \<Rightarrow> Inl e | Inr u_hand \<Rightarrow>
           (case np_arccos (clip (- 1) 1 (sum_list (map2 times u_for u_hand))) of
              Inl e \<Rightarrow> Inl e
            | Inr a \<Rightarrow>
              let theta = a * DEG in
              (case np_cross u_for u_hand of Inl e \<Rightarrow> Inl e | Inr cross \<Rightarrow>
                 if length cross < 3 then Inl IndexError
                 else
                   let sign_raw = sgn (cross ! 2 + 1 / 10 ^ 9) in
                   if f ! 1 = [] \<or> f ! 0 = [] then Inl IndexError
                   else
                     let side_factor = (if f ! 1 ! 0 < f ! 0 ! 0 then - 1 else 1)
                     in Inr (theta * sign_raw * side_factor)))))"

fun sequence_err :: "(pyerr + 'a) list \<Rightarrow> pyerr + 'a list" where
  "sequence_err [] = Inr []"
| "sequence_err (Inl e # rs) = Inl e"
| "sequence_err (Inr x # rs) = (case sequence_err rs of Inl e \<Rightarrow> Inl e | Inr xs \<Rightarrow> Inr (x # xs))"

subsection \<open>The optional moving median\<close>

text \<open>\<open>np.median\<close> of a non-empty list: the middle of the sorted values, the mean of the
  two middle ones when the length is even.\<close>

definition np_median :: "real list \<Rightarrow> pyerr + real" where
  "np_median xs =
     (let s = sort xs; n = length s in
      if n = 0 then Inl NaNResult
      else if even n then Inr ((s ! (n div 2 - 1) + s ! (n div 2)) / 2)
      else Inr (s ! (n div 2)))"

text \<open>\<open>deque(maxlen=k).append\<close>: the oldest element is discarded when the deque is full.\<close>

definition deque_append :: "nat \<Rightarrow> real list \<Rightarrow> real \<Rightarrow> real list" where
  "deque_append k buf val = (if length buf \<ge> k then tl buf else buf) @ [val]"

text \<open>The main loop over \<open>enumerate(signed_theta)\<close>.  \<open>out\<close> comes from
  \<open>np.empty_like\<close>: an entry is \<open>None\<close> until it is written.\<close>

fun median_loop ::
  "nat \<Rightarrow> nat \<Rightarrow> nat \<Rightarrow> real list \<Rightarrow> real list \<Rightarrow> real option list \<Rightarrow> pyerr + real option list" where
  "median_loop k half i buf [] out = Inr out"
| "median_loop k half i buf (val # rest) out =
     (let buf' = deque_append k buf val in
      case np_median buf' of Inl e \<Rightarrow> Inl e | Inr m \<Rightarrow>
        median_loop k half (Suc i) buf' rest
          (if i < half then out[i := Some m] else out[i - half := Some m]))"

text \<open>The tail loop \<open>for i in range(half): out[-(i + 1)] = out[-(half + 1)]\<close>.\<close>

fun tail_loop :: "nat \<Rightarrow> nat list \<Rightarrow> real option list \<Rightarrow> pyerr + real option list" where
  "tail_loop half [] out = Inr out"
| "tail_loop half (i # is) out =
     (let n = length out in
      if n < half + 1 \<or> n < i + 1 then Inl IndexError
      else tail_loop half is (out[n - (i + 1) := out ! (n - (half + 1))]))"

fun read_all :: "real option list \<Rightarrow> pyerr + real list" where
  "read_all [] = Inr []"
| "read_all (None # rs) = Inl Uninitialised"
| "read_all (Some x # rs) = (case read_all rs of Inl e \<Rightarrow> Inl e | Inr xs \<Rightarrow> Inr (x # xs))"

definition median_filter :: "nat \<Rightarrow> real list \<Rightarrow> pyerr + real list" where
  "median_filter median_k signed_theta =
     (let out = replicate (length signed_theta) None;
          half = median_k div 2
      in case median_loop median_k half 0 [] signed_theta out of Inl e \<Rightarrow> Inl e | Inr out1 \<Rightarrow>
         (case tail_loop half [0..<half] out1 of Inl e \<Rightarrow> Inl e | Inr out2 \<Rightarrow> read_all out2))"

text \<open>\<open>wrist_angle(frame_xyz, median_k)\<close>.  On an array without any frame (first axis of
  length 0) \<open>np.apply_along_axis\<close> raises ValueError.  The final \<open>squeeze()\<close> only drops
  axes of length one and leaves the values as they are.\<close>

definition wrist_angle :: "ndarray \<Rightarrow> int \<Rightarrow> pyerr + real list" where
  "wrist_angle frame_xyz median_k =
     (let frames = atleast_3d frame_xyz in
      if frames = [] then Inl ValueError
      else
        case sequence_err (map frame_angle frames) of
          Inl e \<Rightarrow> Inl e
        | Inr signed_theta \<Rightarrow>
            if median_k > 1 \<and> int (length signed_theta) \<ge> median_k
            then median_filter (nat median_k) signed_theta
            else Inr signed_theta)"

text \<open>The synthetic frames of the module's unit tests.\<close>

definition R_elbow :: "real list" where "R_elbow = [1 / 10, 3 / 10, 0]"
definition R_wrist :: "real list" where "R_wrist = [2 / 10, 5 / 10, 0]"
definition R_hand :: "real list" where "R_hand = [18 / 100, 45 / 100, 15 / 100]"
definition R_hand2 :: "real list" where "R_hand2 = [22 / 100, 55 / 100, 15 / 100]"
definition L_elbow :: "real list" where "L_elbow = [- (1 / 10), 3 / 10, 0]"
definition L_wrist :: "real list" where "L_wrist = [- (2 / 10), 5 / 10, 0]"
definition L_hand :: "real list" where "L_hand = [- (18 / 100), 45 / 100, 15 / 100]"

definition test_frames :: ndarray where
  "test_frames = Arr3 [ [R_elbow, R_wrist, R_hand], [R_elbow, R_wrist, R_hand2], [L_elbow, L_wrist, L_hand] ]"

text \<open>\<open>np.round(x, 0)\<close> rounds half to even.\<close>

definition np_round :: "real \<Rightarrow> int" where
  "np_round x =
     (let f = \<lfloor>x\<rfloor>; r = x - of_int f in
      if r < 1 / 2 then f else if r > 1 / 2 then f + 1 else if even f then f else f + 1)"


text \<open>Helper for the proofs: what \<open>py_unit\<close> returns when it returns.\<close>

definition unitv :: "real list \<Rightarrow> real list" where
  "unitv v = (if linalg_norm v > 0 then map (\<lambda>x. x / linalg_norm v) v else v)"

section \<open>JavaScript values of the request body\<close>

text \<open>
  The request body is parsed JSON, so a numeric slot holds a finite number, \<open>null\<close>, or is
  absent (\<open>undefined\<close>); JSON has no NaN and no infinity.
\<close>

datatype jsnum = JUndefined | JNull | JNum real

text \<open>\<open>v || 0\<close> and \<open>v || null\<close>: \<open>undefined\<close>, \<open>null\<close> and \<open>0\<close> are falsy.\<close>

fun or_zero :: "jsnum \<Rightarrow> real" where
  "or_zero (JNum x) = x"
| "or_zero _ = 0"

fun or_null :: "jsnum \<Rightarrow> real option" where
  "or_null (JNum x) = (if x = 0 then None else Some x)"
| "or_null _ = None"

text \<open>\<open>v || 0\<close> for a variable declared \<open>number | null\<close>.\<close>

fun null_or_zero :: "real option \<Rightarrow> real" where
  "null_or_zero None = 0"
| "null_or_zero (Some x) = x"

text \<open>\<open>Math.max(a, v)\<close> for \<open>v\<close> that is not \<open>undefined\<close>: \<open>null\<close> converts to 0.\<close>

fun to_number :: "jsnum \<Rightarrow> real" where
  "to_number (JNum x) = x"
| "to_number _ = 0"

text \<open>\<open>q >= TEMPORAL_QUALITY_THRESHOLD\<close>: \<open>undefined\<close> converts to NaN, and every comparison
  with NaN is false; \<open>null\<close> converts to 0.\<close>

definition TEMPORAL_QUALITY_THRESHOLD :: real where
  "TEMPORAL_QUALITY_THRESHOLD = 7 / 10"

fun ge_threshold :: "jsnum \<Rightarrow> bool" where
  "ge_threshold (JNum q) = (q \<ge> TEMPORAL_QUALITY_THRESHOLD)"
| "ge_threshold JNull = (0 \<ge> TEMPORAL_QUALITY_THRESHOLD)"
| "ge_threshold JUndefined = False"

section \<open>The assessment completion handler (server/routes.ts)\<close>

record romData =
  rd_mcpAngle :: jsnum
  rd_pipAngle :: jsnum
  rd_dipAngle :: jsnum
  rd_totalActiveRom :: jsnum

record wristAngles =
  wa_wristFlexionAngle :: jsnum
  wa_wristExtensionAngle :: jsnum

type_synonym landmark = "real \<times> real \<times> real"

record motionFrame =
  fr_landmarks :: "landmark list option"
  fr_wristAngles :: "wristAngles option"

record repetition =
  rep_romData :: "romData option"
  rep_wristFlexionAngle :: jsnum
  rep_wristExtensionAngle :: jsnum
  rep_maxWristFlexion :: jsnum
  rep_maxWristExtension :: jsnum
  rep_motionData :: "motionFrame list option"

record body =
  repetitionData :: "repetition list option"
  qualityScore :: jsnum
  handType :: "string option"
  reqWristFlexionAngle :: jsnum
  reqWristExtensionAngle :: jsnum
  reqMaxWristFlexion :: jsnum
  reqMaxWristExtension :: jsnum
  reqMaxRadialDeviation :: jsnum
  reqMaxUlnarDeviation :: jsnum
  dashScore :: jsnum

text \<open>The \<open>let\<close> variables the two \<open>forEach\<close> loops assign.\<close>

record maxima =
  maxMcpAngle :: "real option"
  maxPipAngle :: "real option"
  maxDipAngle :: "real option"
  totalActiveRom :: "real option"
  wristFlexionAngle :: "real option"
  wristExtensionAngle :: "real option"
  maxWristFlexion :: "real option"
  maxWristExtension :: "real option"

text \<open>The inner loop \<open>rep.motionData.forEach(frame => ...)\<close>.\<close>

definition frameStep :: "maxima \<Rightarrow> motionFrame \<Rightarrow> maxima" where
  "frameStep m frame =
     (case fr_wristAngles frame of
        None \<Rightarrow> m
      | Some frameWristAngles \<Rightarrow>
          let m1 = (case wa_wristFlexionAngle frameWristAngles of
                      JNum x \<Rightarrow> m\<lparr>wristFlexionAngle := Some (max (null_or_zero (wristFlexionAngle m)) x)\<rparr>
                    | _ \<Rightarrow> m)
          in (case wa_wristExtensionAngle frameWristAngles of
                JNum x \<Rightarrow> m1\<lparr>wristExtensionAngle := Some (max (null_or_zero (wristExtensionAngle m1)) x)\<rparr>
              | _ \<Rightarrow> m1))"

text \<open>\<open>if (v !== undefined) acc = Math.max(acc || 0, v)\<close>.\<close>

fun foldDefined :: "real option \<Rightarrow> jsnum \<Rightarrow> real option" where
  "foldDefined acc JUndefined = acc"
| "foldDefined acc v = Some (max (null_or_zero acc) (to_number v))"

text \<open>The body of \<open>repetitionData.forEach(rep => ...)\<close>, in its three parts: the index
  finger values of \<open>rep.romData\<close>, the four wrist values of the repetition, and the motion
  frames (their collection into \<open>allMotionFrames\<close> is a definition of its own).\<close>

definition romStep :: "maxima \<Rightarrow> repetition \<Rightarrow> maxima" where
  "romStep m rep =
     (case rep_romData rep of
        None \<Rightarrow> m
      | Some rd \<Rightarrow>
          m\<lparr>maxMcpAngle := Some (max (null_or_zero (maxMcpAngle m)) (or_zero (rd_mcpAngle rd))),
            maxPipAngle := Some (max (null_or_zero (maxPipAngle m)) (or_zero (rd_pipAngle rd))),
            maxDipAngle := Some (max (null_or_zero (maxDipAngle m)) (or_zero (rd_dipAngle rd))),
            totalActiveRom := Some (max (null_or_zero (totalActiveRom m)) (or_zero (rd_totalActiveRom rd)))\<rparr>)"

definition wristStep :: "maxima \<Rightarrow> repetition \<Rightarrow> maxima" where
  "wristStep m rep =
     m\<lparr>wristFlexionAngle := foldDefined (wristFlexionAngle m) (rep_wristFlexionAngle rep),
       wristExtensionAngle := foldDefined (wristExtensionAngle m) (rep_wristExtensionAngle rep),
       maxWristFlexion := foldDefined (maxWristFlexion m) (rep_maxWristFlexion rep),
       maxWristExtension := foldDefined (maxWristExtension m) (rep_maxWristExtension rep)\<rparr>"

definition repStep :: "maxima \<Rightarrow> repetition \<Rightarrow> maxima" where
  "repStep m rep =
     (let m1 = wristStep (romStep m rep) rep
      in case rep_motionData rep of
           None \<Rightarrow> m1
         | Some frames \<Rightarrow> foldl frameStep m1 frames)"

definition allMotionFrames :: "repetition list \<Rightarrow> motionFrame list" where
  "allMotionFrames reps = concat (map (\<lambda>rep. case rep_motionData rep of None \<Rightarrow> [] | Some fs \<Rightarrow> fs) reps)"

text \<open>After the loop: the maxima take in the angles extracted from the recording.\<close>

definition finalWrist :: "maxima \<Rightarrow> maxima" where
  "finalWrist m =
     (let m1 = (case wristFlexionAngle m of
                  None \<Rightarrow> m
                | Some a \<Rightarrow> m\<lparr>maxWristFlexion := Some (max (null_or_zero (maxWristFlexion m)) a)\<rparr>)
      in case wristExtensionAngle m1 of
           None \<Rightarrow> m1
         | Some a \<Rightarrow> m1\<lparr>maxWristExtension := Some (max (null_or_zero (maxWristExtension m1)) a)\<rparr>)"

definition initialMaxima :: "body \<Rightarrow> maxima" where
  "initialMaxima b =
     \<lparr>maxMcpAngle = None, maxPipAngle = None, maxDipAngle = None, totalActiveRom = None,
      wristFlexionAngle = or_null (reqWristFlexionAngle b),
      wristExtensionAngle = or_null (reqWristExtensionAngle b),
      maxWristFlexion = or_null (reqMaxWristFlexion b),
      maxWristExtension = or_null (reqMaxWristExtension b)\<rparr>"

text \<open>
  The two calculators are imported from shared modules that are not part of the sources at
  hand; the handler takes them as parameters.  \<open>None\<close> stands for an exception, which the
  handler catches and logs.  The frames are handed over as \<open>{landmarks: frame.landmarks || frame}\<close>.
\<close>

datatype formattedFrame = Landmarks "landmark list" | WholeFrame motionFrame

definition formatFrame :: "motionFrame \<Rightarrow> formattedFrame" where
  "formatFrame frame = (case fr_landmarks frame of Some l \<Rightarrow> Landmarks l | None \<Rightarrow> WholeFrame frame)"

record kapandjiDetails =
  indexProximalPhalanx :: bool
  indexMiddlePhalanx :: bool
  indexTip :: bool
  middleTip :: bool
  ringTip :: bool
  littleTip :: bool

record kapandjiResult =
  maxScore :: real
  details :: kapandjiDetails

record fingerROM =
  f_mcpAngle :: jsnum
  f_pipAngle :: jsnum
  f_dipAngle :: jsnum
  f_totalActiveRom :: jsnum

record temporalQuality =
  tq_index :: jsnum
  tq_middle :: jsnum
  tq_ring :: jsnum
  tq_pinky :: jsnum

record allFingersROM =
  rom_index :: "fingerROM option"
  rom_middle :: "fingerROM option"
  rom_ring :: "fingerROM option"
  rom_pinky :: "fingerROM option"
  rom_temporalQuality :: "temporalQuality option"

text \<open>\<open>allFingersROM.temporalQuality || {}\<close>: every score of the empty object is undefined.\<close>

definition qualityOrEmpty :: "temporalQuality option \<Rightarrow> temporalQuality" where
  "qualityOrEmpty t =
     (case t of
        Some q \<Rightarrow> q
      | None \<Rightarrow> \<lparr>tq_index = JUndefined, tq_middle = JUndefined, tq_ring = JUndefined, tq_pinky = JUndefined\<rparr>)"

text \<open>\<open>(quality >= TEMPORAL_QUALITY_THRESHOLD) ? finger?.field || null : null\<close>.\<close>

definition gated :: "jsnum \<Rightarrow> fingerROM option \<Rightarrow> (fingerROM \<Rightarrow> jsnum) \<Rightarrow> real option" where
  "gated quality finger field =
     (if ge_threshold quality
      then (case finger of None \<Rightarrow> None | Some f \<Rightarrow> or_null (field f))
      else None)"

text \<open>The record handed to \<open>storage.createUserAssessment\<close>.  A numeric column is stored as
  \<open>String(v)\<close> when \<open>v\<close> is not null; the model keeps the number.  The opaque fields
  \<open>romData\<close>, \<open>repetitionData\<close> and \<open>responses\<close> are copied from the body and left out.\<close>

record userAssessment =
  ua_userId :: nat
  ua_assessmentId :: nat
  ua_sessionNumber :: nat
  ua_isCompleted :: bool
  ua_completedAt :: nat
  ua_qualityScore :: jsnum
  ua_maxMcpAngle :: "real option"
  ua_maxPipAngle :: "real option"
  ua_maxDipAngle :: "real option"
  ua_totalActiveRom :: "real option"
  ua_kapandjiScore :: "real option"
  ua_indexFingerRom :: "real option"
  ua_middleFingerRom :: "real option"
  ua_ringFingerRom :: "real option"
  ua_pinkyFingerRom :: "real option"
  ua_middleFingerMcp :: "real option"
  ua_middleFingerPip :: "real option"
  ua_middleFingerDip :: "real option"
  ua_ringFingerMcp :: "real option"
  ua_ringFingerPip :: "real option"
  ua_ringFingerDip :: "real option"
  ua_pinkyFingerMcp :: "real option"
  ua_pinkyFingerPip :: "real option"
  ua_pinkyFingerDip :: "real option"
  ua_handType :: "string option"
  ua_wristFlexionAngle :: "real option"
  ua_wristExtensionAngle :: "real option"
  ua_maxWristFlexion :: "real option"
  ua_maxWristExtension :: "real option"
  ua_maxRadialDeviation :: "real option"
  ua_maxUlnarDeviation :: "real option"
  ua_dashScore :: jsnum

text \<open>What the handler reads from outside the request: the clock (\<open>new Date()\<close>) and the
  storage (the assessment's name, the user's earlier assessments by assessment id).\<close>

record env =
  now :: nat
  getAssessmentName :: "nat \<Rightarrow> string option"
  getUserAssessments :: "nat \<Rightarrow> nat list"

text \<open>The per-finger variables assigned inside the \<open>try\<close> block.\<close>

record fingerVars =
  v_totalActiveRom :: "real option"
  v_kapandjiScore :: "real option"
  v_indexFingerRom :: "real option"
  v_middleFingerRom :: "real option"
  v_ringFingerRom :: "real option"
  v_pinkyFingerRom :: "real option"
  v_middleFingerMcp :: "real option"
  v_middleFingerPip :: "real option"
  v_middleFingerDip :: "real option"
  v_ringFingerMcp :: "real option"
  v_ringFingerPip :: "real option"
  v_ringFingerDip :: "real option"
  v_pinkyFingerMcp :: "real option"
  v_pinkyFingerPip :: "real option"
  v_pinkyFingerDip :: "real option"

definition initialFingerVars :: "real option \<Rightarrow> fingerVars" where
  "initialFingerVars tam =
     \<lparr>v_totalActiveRom = tam, v_kapandjiScore = None,
      v_indexFingerRom = None, v_middleFingerRom = None, v_ringFingerRom = None, v_pinkyFingerRom = None,
      v_middleFingerMcp = None, v_middleFingerPip = None, v_middleFingerDip = None,
      v_ringFingerMcp = None, v_ringFingerPip = None, v_ringFingerDip = None,
      v_pinkyFingerMcp = None, v_pinkyFingerPip = None, v_pinkyFingerDip = None\<rparr>"

definition kapandjiBranch :: "fingerVars \<Rightarrow> kapandjiResult \<Rightarrow> fingerVars" where
  "kapandjiBranch v kapandjiResult =
     v\<lparr>v_kapandjiScore := Some (maxScore kapandjiResult),
       v_totalActiveRom := Some (maxScore kapandjiResult),
       v_indexFingerRom := Some (if indexTip (details kapandjiResult) then 3
                                else if indexMiddlePhalanx (details kapandjiResult) then 2
                                else if indexProximalPhalanx (details kapandjiResult) then 1 else 0),
       v_middleFingerRom := Some (if middleTip (details kapandjiResult) then 4 else 0),
       v_ringFingerRom := Some (if ringTip (details kapandjiResult) then 5 else 0),
       v_pinkyFingerRom := Some (if littleTip (details kapandjiResult) then 6 else 0)\<rparr>"

definition romBranch :: "fingerVars \<Rightarrow> allFingersROM \<Rightarrow> fingerVars" where
  "romBranch v allFingers =
     (let tq = qualityOrEmpty (rom_temporalQuality allFingers) in
      v\<lparr>v_indexFingerRom := gated (tq_index tq) (rom_index allFingers) f_totalActiveRom,
        v_middleFingerRom := gated (tq_middle tq) (rom_middle allFingers) f_totalActiveRom,
        v_ringFingerRom := gated (tq_ring tq) (rom_ring allFingers) f_totalActiveRom,
        v_pinkyFingerRom := gated (tq_pinky tq) (rom_pinky allFingers) f_totalActiveRom,
        v_middleFingerMcp := gated (tq_middle tq) (rom_middle allFingers) f_mcpAngle,
        v_middleFingerPip := gated (tq_middle tq) (rom_middle allFingers) f_pipAngle,
        v_middleFingerDip := gated (tq_middle tq) (rom_middle allFingers) f_dipAngle,
        v_ringFingerMcp := gated (tq_ring tq) (rom_ring allFingers) f_mcpAngle,
        v_ringFingerPip := gated (tq_ring tq) (rom_ring allFingers) f_pipAngle,
        v_ringFingerDip := gated (tq_ring tq) (rom_ring allFingers) f_dipAngle,
        v_pinkyFingerMcp := gated (tq_pinky tq) (rom_pinky allFingers) f_mcpAngle,
        v_pinkyFingerPip := gated (tq_pinky tq) (rom_pinky allFingers) f_pipAngle,
        v_pinkyFingerDip := gated (tq_pinky tq) (rom_pinky allFingers) f_dipAngle\<rparr>)"

text \<open>The \<open>try\<close> block: which calculator runs is decided by the assessment's name.\<close>

definition fingerCalculation ::
  "(formattedFrame list \<Rightarrow> kapandjiResult option) \<Rightarrow> (formattedFrame list \<Rightarrow> allFingersROM option) \<Rightarrow>
   string option \<Rightarrow> motionFrame list \<Rightarrow> fingerVars \<Rightarrow> fingerVars" where
  "fingerCalculation calculateMaxKapandjiScore calculateAllFingersMaxROM name frames v =
     (if length frames > 0 then
        (if name = Some ''Kapandji Score'' then
           (case calculateMaxKapandjiScore (map formatFrame frames) of
              None \<Rightarrow> v
            | Some kapandjiResult \<Rightarrow> kapandjiBranch v kapandjiResult)
         else
           (case calculateAllFingersMaxROM (map formatFrame frames) of
              None \<Rightarrow> v
            | Some allFingers \<Rightarrow> romBranch v allFingers))
      else v)"

text \<open>The block \<open>if (repetitionData && Array.isArray(repetitionData)) { ... }\<close>: the
  values of the \<open>let\<close> variables when the record is written.\<close>

definition measurements ::
  "(formattedFrame list \<Rightarrow> kapandjiResult option) \<Rightarrow> (formattedFrame list \<Rightarrow> allFingersROM option) \<Rightarrow>
   string option \<Rightarrow> body \<Rightarrow> maxima \<times> fingerVars" where
  "measurements calculateMaxKapandjiScore calculateAllFingersMaxROM name b =
     (case repetitionData b of
        None \<Rightarrow> (initialMaxima b, initialFingerVars None)
      | Some reps \<Rightarrow>
          let m1 = finalWrist (foldl repStep (initialMaxima b) reps)
          in (m1, fingerCalculation calculateMaxKapandjiScore calculateAllFingersMaxROM
                    name (allMotionFrames reps) (initialFingerVars (totalActiveRom m1))))"

definition completeHandler ::
  "(formattedFrame list \<Rightarrow> kapandjiResult option) \<Rightarrow> (formattedFrame list \<Rightarrow> allFingersROM option) \<Rightarrow>
   env \<Rightarrow> nat \<Rightarrow> nat \<Rightarrow> body \<Rightarrow> userAssessment" where
  "completeHandler calculateMaxKapandjiScore calculateAllFingersMaxROM e userId assessmentId b =
     (let (m, v) = measurements calculateMaxKapandjiScore calculateAllFingersMaxROM
                     (getAssessmentName e assessmentId) b;
          sessionCount = length (filter (\<lambda>a. a = assessmentId) (getUserAssessments e userId))
      in \<lparr>ua_userId = userId,
          ua_assessmentId = assessmentId,
          ua_sessionNumber = sessionCount + 1,
          ua_isCompleted = True,
          ua_completedAt = now e,
          ua_qualityScore = qualityScore b,
          ua_maxMcpAngle = maxMcpAngle m,
          ua_maxPipAngle = maxPipAngle m,
          ua_maxDipAngle = maxDipAngle m,
          ua_totalActiveRom = v_totalActiveRom v,
          ua_kapandjiScore = v_kapandjiScore v,
          ua_indexFingerRom = v_indexFingerRom v,
          ua_middleFingerRom = v_middleFingerRom v,
          ua_ringFingerRom = v_ringFingerRom v,
          ua_pinkyFingerRom = v_pinkyFingerRom v,
          ua_middleFingerMcp = v_middleFingerMcp v,
          ua_middleFingerPip = v_middleFingerPip v,
          ua_middleFingerDip = v_middleFingerDip v,
          ua_ringFingerMcp = v_ringFingerMcp v,
          ua_ringFingerPip = v_ringFingerPip v,
          ua_ringFingerDip = v_ringFingerDip v,
          ua_pinkyFingerMcp = v_pinkyFingerMcp v,
          ua_pinkyFingerPip = v_pinkyFingerPip v,
          ua_pinkyFingerDip = v_pinkyFingerDip v,
          ua_handType = (case handType b of Some h \<Rightarrow> (if h = [] then None else Some h) | None \<Rightarrow> None),
          ua_wristFlexionAngle = wristFlexionAngle m,
          ua_wristExtensionAngle = wristExtensionAngle m,
          ua_maxWristFlexion = maxWristFlexion m,
          ua_maxWristExtension = maxWristExtension m,
          ua_maxRadialDeviation = or_null (reqMaxRadialDeviation b),
          ua_maxUlnarDeviation = or_null (reqMaxUlnarDeviation b),
          ua_dashScore = dashScore b\<rparr>)"


section \<open>The recording page (client): the tracker callback, the record button, the countdown\<close>

datatype hand = LEFT | RIGHT | UNKNOWN

record JointAngles =
  mcpAngle :: real
  pipAngle :: real
  dipAngle :: real
  ja_totalActiveRom :: real

record maxWristAngles =
  s_maxWristFlexion :: real
  s_maxWristExtension :: real

record wristDeviation =
  radialDeviation :: real
  ulnarDeviation :: real

record maxDeviation =
  maxRadialDeviation :: real
  maxUlnarDeviation :: real

text \<open>One recorded motion frame (\<open>motionFrame\<close> in the callback).  The timestamp is the
  reading of \<open>Date.now()\<close> in milliseconds.  The elbow and wrist indices and the elbow lock
  are copied from the tracker's update.\<close>

record recordedFrame =
  timestamp :: int
  rf_landmarks :: "landmark list"
  rf_poseLandmarks :: "landmark list"
  rf_wristAngles :: "wristAngles option"
  handedness :: hand
  rf_sessionHandType :: hand
  rf_sessionElbowIndex :: "nat option"
  rf_sessionWristIndex :: "nat option"
  rf_sessionElbowLocked :: "bool option"
  quality :: nat

text \<open>One entry of \<open>recordedData\<close>: the \<open>repetitionData\<close> object built when a repetition is
  complete.  Its \<open>timestamp\<close> is the ISO string of the clock at that moment; the model keeps
  the clock reading.\<close>

record clientRepetition =
  repetition :: nat
  duration :: real
  landmarksDetected :: nat
  cr_qualityScore :: real
  cr_timestamp :: int
  motionData :: "recordedFrame list"
  cr_romData :: JointAngles
  cr_wristFlexionAngle :: real
  cr_wristExtensionAngle :: real
  cr_maxWristFlexion :: real
  cr_maxWristExtension :: real

text \<open>The update the tracker passes to the callback.  A hand-side slot that is absent
  (\<open>undefined\<close>) is \<open>None\<close>; the string \<open>'UNKNOWN'\<close> is a value, and it is truthy.\<close>

record trackerData =
  handDetected :: bool
  landmarksCount :: nat
  trackingQuality :: string
  landmarks :: "landmark list option"
  poseLandmarks :: "landmark list option"
  detectedHandSide :: "hand option"
  d_handType :: "hand option"
  lockedHandType :: "hand option"
  d_sessionHandType :: "hand option"
  d_wristDeviation :: "wristDeviation option"
  d_wristAngles :: "wristAngles option"
  sessionElbowIndex :: "nat option"
  sessionWristIndex :: "nat option"
  sessionElbowLocked :: "bool option"

text \<open>The component's state, as far as the callback and the completion of a repetition
  read or write it (the hand position and the landmarks kept for display are left out).\<close>

record recording =
  st_handDetected :: bool
  st_landmarksCount :: nat
  st_trackingQuality :: string
  currentRepetition :: nat
  recordedData :: "clientRepetition list"
  detectedHandType :: hand
  sessionHandType :: hand
  isRecording :: bool
  isCountingDown :: bool
  countdownTimer :: nat
  recordingStartTime :: "int option"
  maxROM :: JointAngles
  sessionMaxWristAngles :: maxWristAngles
  sessionMaxDeviation :: maxDeviation
  recordingMotionData :: "recordedFrame list"

text \<open>\<open>a || b || ... || "LEFT"\<close> over the hand-side slots: the first one that is present.\<close>

fun firstPresent :: "hand option list \<Rightarrow> hand" where
  "firstPresent [] = LEFT"
| "firstPresent (Some h # rest) = h"
| "firstPresent (None # rest) = firstPresent rest"



text \<open>The first lines of the callback: what the tracker says of the current frame.\<close>

definition updateTracking :: "trackerData \<Rightarrow> recording \<Rightarrow> recording" where
  "updateTracking d s =
     s\<lparr>st_handDetected := handDetected d,
       st_landmarksCount := landmarksCount d,
       st_trackingQuality := trackingQuality d\<rparr>"

definition updateDetected :: "trackerData \<Rightarrow> recording \<Rightarrow> recording" where
  "updateDetected d s =
     (let s1 = (case detectedHandSide d of
                  Some h \<Rightarrow> (if h \<noteq> UNKNOWN then s\<lparr>detectedHandType := h\<rparr> else s)
                | None \<Rightarrow> s)
      in case d_handType d of
           Some h \<Rightarrow> (if h \<noteq> UNKNOWN then s1\<lparr>detectedHandType := h\<rparr> else s1)
         | None \<Rightarrow> s1)"

definition updateDeviation :: "trackerData \<Rightarrow> recording \<Rightarrow> recording" where
  "updateDeviation d s =
     (case d_wristDeviation d of
        None \<Rightarrow> s
      | Some w \<Rightarrow>
          let cur = sessionMaxDeviation s;
              m1 = (if radialDeviation w > maxRadialDeviation cur
                    then cur\<lparr>maxRadialDeviation := radialDeviation w\<rparr> else cur);
              m2 = (if ulnarDeviation w > maxUlnarDeviation cur
                    then m1\<lparr>maxUlnarDeviation := ulnarDeviation w\<rparr> else m1)
          in s\<lparr>sessionMaxDeviation := m2\<rparr>)"

text \<open>The session lock: the hand type is written only while it is UNKNOWN.\<close>

definition updateSessionLock :: "trackerData \<Rightarrow> recording \<Rightarrow> recording" where
  "updateSessionLock d s =
     (if sessionHandType s = UNKNOWN then
        (case lockedHandType d of
           Some h \<Rightarrow>
             (if h \<noteq> UNKNOWN then s\<lparr>sessionHandType := h\<rparr>
              else (case detectedHandSide d of
                      Some h' \<Rightarrow> (if h' \<noteq> UNKNOWN then s\<lparr>sessionHandType := h'\<rparr> else s)
                    | None \<Rightarrow> s))
         | None \<Rightarrow>
             (case detectedHandSide d of
                Some h' \<Rightarrow> (if h' \<noteq> UNKNOWN then s\<lparr>sessionHandType := h'\<rparr> else s)
              | None \<Rightarrow> s))
      else s)"

definition updateWristMax :: "trackerData \<Rightarrow> recording \<Rightarrow> recording" where
  "updateWristMax d s =
     (case d_wristAngles d of
        None \<Rightarrow> s
      | Some w \<Rightarrow>
          s\<lparr>sessionMaxWristAngles :=
              \<lparr>s_maxWristFlexion = max (s_maxWristFlexion (sessionMaxWristAngles s)) (or_zero (wa_wristFlexionAngle w)),
               s_maxWristExtension = max (s_maxWristExtension (sessionMaxWristAngles s)) (or_zero (wa_wristExtensionAngle w))\<rparr>\<rparr>)"

text \<open>\<open>calculateCurrentROM\<close> comes from the client's rom-calculator, which is not part of the
  sources at hand; it is a parameter, \<open>None\<close> when it throws (the \<open>try\<close> block catches).\<close>

definition updateMaxROM :: "(landmark list \<Rightarrow> JointAngles option) \<Rightarrow> landmark list \<Rightarrow> recording \<Rightarrow> recording" where
  "updateMaxROM calculateCurrentROM lms s =
     (if length lms \<ge> 21 then
        (case calculateCurrentROM lms of
           None \<Rightarrow> s
         | Some romData \<Rightarrow>
             if isRecording s then
               s\<lparr>maxROM :=
                   \<lparr>mcpAngle = max (mcpAngle (maxROM s)) (mcpAngle romData),
                    pipAngle = max (pipAngle (maxROM s)) (pipAngle romData),
                    dipAngle = max (dipAngle (maxROM s)) (dipAngle romData),
                    ja_totalActiveRom = max (ja_totalActiveRom (maxROM s)) (ja_totalActiveRom romData)\<rparr>\<rparr>
             else s)
      else s)"

text \<open>The frame is captured while the recording runs: the elapsed time, in seconds, lies in
  \<open>(0, 10]\<close> and a hand is detected.  \<open>prev\<close> is the session hand type the callback closed
  over, the one before this update.\<close>

definition captureFrame :: "hand \<Rightarrow> trackerData \<Rightarrow> int \<Rightarrow> landmark list \<Rightarrow> recording \<Rightarrow> recording" where
  "captureFrame prev d currentTime lms s =
     (case recordingStartTime s of
        None \<Rightarrow> s
      | Some start \<Rightarrow>
          if start \<noteq> 0 \<and> currentTime - start > 0 \<and> currentTime - start \<le> 10 * 1000 \<and> handDetected d
          then
            s\<lparr>recordingMotionData := recordingMotionData s @
                [\<lparr>timestamp = currentTime,
                  rf_landmarks = lms,
                  rf_poseLandmarks = (case poseLandmarks d of Some p \<Rightarrow> p | None \<Rightarrow> []),
                  rf_wristAngles = d_wristAngles d,
                  handedness = (if prev \<noteq> UNKNOWN then prev
                                else firstPresent [d_sessionHandType d, lockedHandType d, detectedHandSide d, d_handType d]),
                  rf_sessionHandType = (if prev \<noteq> UNKNOWN then prev
                                else firstPresent [d_sessionHandType d, lockedHandType d, detectedHandSide d]),
                  rf_sessionElbowIndex = sessionElbowIndex d,
                  rf_sessionWristIndex = sessionWristIndex d,
                  rf_sessionElbowLocked = sessionElbowLocked d,
                  quality = (if trackingQuality d = ''Excellent'' then 90
                             else if trackingQuality d = ''Good'' then 70 else 50)\<rparr>]\<rparr>
          else s)"

definition handleMediaPipeUpdate ::
  "(landmark list \<Rightarrow> JointAngles option) \<Rightarrow> recording \<Rightarrow> trackerData \<times> int \<Rightarrow> recording" where
  "handleMediaPipeUpdate calculateCurrentROM s upd =
     (let d = fst upd; currentTime = snd upd;
          s1 = updateSessionLock d (updateDeviation d (updateDetected d (updateTracking d s)))
      in case landmarks d of
           None \<Rightarrow> s1
         | Some lms \<Rightarrow>
             if length lms > 0
             then captureFrame (sessionHandType s) d currentTime lms
                    (updateMaxROM calculateCurrentROM lms (updateWristMax d s1))
             else s1)"

section \<open>Thumb opposition: the session Kapandji score\<close>

text \<open>
  Modelled from the spec: the module shared/kapandji-calculator with
  \<open>calculateMaxKapandjiScore\<close> is imported by the server and is not part of the sources.
  The spec: a fixed ladder of 10 target points; for each frame, the Euclidean distance from
  the thumb-tip landmark to each target is computed, and the achieved rung is the
  highest-indexed target whose distance is below a proximity threshold; the session score is
  the maximum rung achieved across all frames.  The position of the targets on the hand is
  left open by the spec and is the parameter \<open>ladder\<close>; the thumb tip is landmark 4.
\<close>

definition distance :: "landmark \<Rightarrow> landmark \<Rightarrow> real" where
  "distance p q =
     (case p of (px, py, pz) \<Rightarrow> case q of (qx, qy, qz) \<Rightarrow>
        sqrt ((px - qx) * (px - qx) + (py - qy) * (py - qy) + (pz - qz) * (pz - qz)))"

text \<open>The rungs are numbered from 1; \<open>best\<close> is the highest rung reached so far.\<close>

fun highestRung :: "real \<Rightarrow> landmark \<Rightarrow> landmark list \<Rightarrow> nat \<Rightarrow> nat \<Rightarrow> nat" where
  "highestRung threshold thumbTip [] rung best = best"
| "highestRung threshold thumbTip (t # targets) rung best =
     highestRung threshold thumbTip targets (Suc rung)
       (if distance thumbTip t < threshold then rung else best)"

definition calculateKapandjiScore :: "real \<Rightarrow> (landmark list \<Rightarrow> landmark list) \<Rightarrow> landmark list \<Rightarrow> nat" where
  "calculateKapandjiScore threshold ladder lms =
     (if length lms < 21 then 0
      else highestRung threshold (lms ! 4) (take 10 (ladder lms)) 1 0)"

fun maxScoreLoop :: "real \<Rightarrow> (landmark list \<Rightarrow> landmark list) \<Rightarrow> nat \<Rightarrow> landmark list list \<Rightarrow> nat" where
  "maxScoreLoop threshold ladder best [] = best"
| "maxScoreLoop threshold ladder best (frame # frames) =
     (let score = calculateKapandjiScore threshold ladder frame in
      maxScoreLoop threshold ladder (if score > best then score else best) frames)"

definition calculateMaxKapandjiScore :: "real \<Rightarrow> (landmark list \<Rightarrow> landmark list) \<Rightarrow> landmark list list \<Rightarrow> nat" where
  "calculateMaxKapandjiScore threshold ladder frames = maxScoreLoop threshold ladder 0 frames"

section \<open>Finger joint angles and total active motion\<close>

text \<open>
  Modelled from the spec: the rom-calculator modules with \<open>calculateFingerROM\<close> are imported
  by the client and the server and are not part of the sources.  The spec: bone vectors are
  formed from consecutive joint landmarks; for each joint the angle is
  \<open>arccos(clamp(dot(unit(v1), unit(v2)), -1, 1)) * 180/pi\<close> between the two adjacent bone
  vectors; near-zero-length vectors are guarded with a small epsilon bias before
  normalization; \<open>totalActiveRom\<close> is MCP + PIP + DIP.  The bone before the MCP joint runs
  from the wrist (landmark 0) to the MCP landmark.
\<close>

type_synonym vec3 = "real \<times> real \<times> real"

definition vsub :: "vec3 \<Rightarrow> vec3 \<Rightarrow> vec3" where
  "vsub p q = (case p of (px, py, pz) \<Rightarrow> case q of (qx, qy, qz) \<Rightarrow> (px - qx, py - qy, pz - qz))"

definition vdot :: "vec3 \<Rightarrow> vec3 \<Rightarrow> real" where
  "vdot p q = (case p of (px, py, pz) \<Rightarrow> case q of (qx, qy, qz) \<Rightarrow> px * qx + py * qy + pz * qz)"

definition vnorm :: "vec3 \<Rightarrow> real" where
  "vnorm p = sqrt (vdot p p)"

definition unit_eps :: "real \<Rightarrow> vec3 \<Rightarrow> vec3" where
  "unit_eps eps p = (case p of (px, py, pz) \<Rightarrow>
     (px / (vnorm p + eps), py / (vnorm p + eps), pz / (vnorm p + eps)))"

definition jointAngle :: "real \<Rightarrow> vec3 \<Rightarrow> vec3 \<Rightarrow> real" where
  "jointAngle eps v1 v2 = arccos (clip (- 1) 1 (vdot (unit_eps eps v1) (unit_eps eps v2))) * (180 / pi)"

definition calculateFingerROM :: "real \<Rightarrow> landmark \<Rightarrow> landmark \<Rightarrow> landmark \<Rightarrow> landmark \<Rightarrow> landmark \<Rightarrow> JointAngles" where
  "calculateFingerROM eps wrist mcp pip dip tip =
     (let mcpA = jointAngle eps (vsub mcp wrist) (vsub pip mcp);
          pipA = jointAngle eps (vsub pip mcp) (vsub dip pip);
          dipA = jointAngle eps (vsub dip pip) (vsub tip dip)
      in \<lparr>mcpAngle = mcpA, pipAngle = pipA, dipAngle = dipA, ja_totalActiveRom = mcpA + pipA + dipA\<rparr>)"

section \<open>The DASH questionnaire score (client/src/components/dash-assessment.tsx)\<close>

text \<open>\<open>Math.round\<close> rounds to the nearest integer, a half towards plus infinity.\<close>

definition math_round :: "real \<Rightarrow> real" where
  "math_round x = of_int \<lfloor>x + 1 / 2\<rfloor>"

text \<open>\<open>responses\<close> is a \<open>Record<number, number>\<close>: the list of its entries, one per question
  id.  \<open>None\<close> is the \<open>null\<close> the function returns.\<close>

definition calculateDashScore :: "(nat \<times> real) list \<Rightarrow> real option" where
  "calculateDashScore responses =
     (let validResponses = filter (\<lambda>value. value > 0) (map snd responses) in
      if length validResponses < 27 then None
      else
        let sum = foldl (\<lambda>acc value. acc + value) 0 validResponses;
            average = sum / real (length validResponses);
            dashScore = ((average - 1) / 4) * 100
        in Some (math_round (dashScore * 10) / 10))"

text \<open>The score in closed form, to compare with: the mean of the answered responses,
  rescaled and rounded to one decimal place.\<close>

definition mean :: "real list \<Rightarrow> real" where
  "mean xs = sum_list xs / real (length xs)"

definition round1 :: "real \<Rightarrow> real" where
  "round1 x = of_int \<lfloor>x * 10 + 1 / 2\<rfloor> / 10"

definition answered :: "(nat \<times> real) list \<Rightarrow> real list" where
  "answered responses = map snd (filter (\<lambda>(q, value). value > 0) responses)"

section \<open>From the recording to the request and to the stored record\<close>






















section \<open>Orderings used to state that maxima only grow\<close>

text \<open>\<open>null\<close> is below every value: a maximum that is not set yet may become any number.\<close>

fun le_opt :: "real option \<Rightarrow> real option \<Rightarrow> bool" where
  "le_opt None y = True"
| "le_opt (Some a) None = False"
| "le_opt (Some a) (Some b) = (a \<le> b)"

definition maxima_le :: "maxima \<Rightarrow> maxima \<Rightarrow> bool" where
  "maxima_le m m' =
     (le_opt (maxMcpAngle m) (maxMcpAngle m') \<and> le_opt (maxPipAngle m) (maxPipAngle m') \<and>
      le_opt (maxDipAngle m) (maxDipAngle m') \<and> le_opt (totalActiveRom m) (totalActiveRom m') \<and>
      le_opt (wristFlexionAngle m) (wristFlexionAngle m') \<and>
      le_opt (wristExtensionAngle m) (wristExtensionAngle m') \<and>
      le_opt (maxWristFlexion m) (maxWristFlexion m') \<and>
      le_opt (maxWristExtension m) (maxWristExtension m'))"

definition client_le :: "recording \<Rightarrow> recording \<Rightarrow> bool" where
  "client_le s s' =
     (mcpAngle (maxROM s) \<le> mcpAngle (maxROM s') \<and> pipAngle (maxROM s) \<le> pipAngle (maxROM s') \<and>
      dipAngle (maxROM s) \<le> dipAngle (maxROM s') \<and>
      ja_totalActiveRom (maxROM s) \<le> ja_totalActiveRom (maxROM s') \<and>
      s_maxWristFlexion (sessionMaxWristAngles s) \<le> s_maxWristFlexion (sessionMaxWristAngles s') \<and>
      s_maxWristExtension (sessionMaxWristAngles s) \<le> s_maxWristExtension (sessionMaxWristAngles s') \<and>
      maxRadialDeviation (sessionMaxDeviation s) \<le> maxRadialDeviation (sessionMaxDeviation s') \<and>
      maxUlnarDeviation (sessionMaxDeviation s) \<le> maxUlnarDeviation (sessionMaxDeviation s'))"


section \<open>Concrete inputs\<close>

text \<open>A request of the recording page: one repetition with one motion frame, for an
  assessment that is not the Kapandji one.\<close>

definition exampleFrame :: motionFrame where
  "exampleFrame = \<lparr>fr_landmarks = Some (replicate 21 (0, 0, 0)), fr_wristAngles = None\<rparr>"

definition exampleRepetition :: repetition where
  "exampleRepetition =
     \<lparr>rep_romData = None, rep_wristFlexionAngle = JUndefined, rep_wristExtensionAngle = JUndefined,
      rep_maxWristFlexion = JUndefined, rep_maxWristExtension = JUndefined,
      rep_motionData = Some [exampleFrame]\<rparr>"

definition exampleBody :: body where
  "exampleBody =
     \<lparr>repetitionData = Some [exampleRepetition], qualityScore = JNum 90, handType = Some ''LEFT'',
      reqWristFlexionAngle = JUndefined, reqWristExtensionAngle = JUndefined,
      reqMaxWristFlexion = JUndefined, reqMaxWristExtension = JUndefined,
      reqMaxRadialDeviation = JUndefined, reqMaxUlnarDeviation = JUndefined, dashScore = JUndefined\<rparr>"

definition exampleEnv :: env where
  "exampleEnv =
     \<lparr>now = 0, getAssessmentName = (\<lambda>i. Some ''TAM (Total Active Motion)''),
      getUserAssessments = (\<lambda>u. [])\<rparr>"

text \<open>Results of the finger calculator: a finger that did not move (every angle 0), a
  finger with a straight MCP joint, and temporal quality scores above the threshold.\<close>

definition zeroFinger :: fingerROM where
  "zeroFinger = \<lparr>f_mcpAngle = JNum 0, f_pipAngle = JNum 0, f_dipAngle = JNum 0, f_totalActiveRom = JNum 0\<rparr>"

definition flexedFinger :: fingerROM where
  "flexedFinger = \<lparr>f_mcpAngle = JNum 0, f_pipAngle = JNum 95, f_dipAngle = JNum 60, f_totalActiveRom = JNum 155\<rparr>"

definition goodQuality :: temporalQuality where
  "goodQuality = \<lparr>tq_index = JNum (9 / 10), tq_middle = JNum (9 / 10), tq_ring = JNum (9 / 10), tq_pinky = JNum (9 / 10)\<rparr>"

definition zeroIndexROM :: allFingersROM where
  "zeroIndexROM =
     \<lparr>rom_index = Some zeroFinger, rom_middle = Some flexedFinger, rom_ring = Some flexedFinger,
      rom_pinky = Some flexedFinger, rom_temporalQuality = Some goodQuality\<rparr>"

definition zeroPinkyROM :: allFingersROM where
  "zeroPinkyROM =
     \<lparr>rom_index = Some flexedFinger, rom_middle = Some flexedFinger, rom_ring = Some flexedFinger,
      rom_pinky = Some zeroFinger, rom_temporalQuality = Some goodQuality\<rparr>"

text \<open>Maxima in the middle of a session, and a repetition whose values lie partly below
  and partly above them.\<close>

definition exampleMaxima :: maxima where
  "exampleMaxima =
     \<lparr>maxMcpAngle = Some 40, maxPipAngle = Some 50, maxDipAngle = Some 30, totalActiveRom = Some 120,
      wristFlexionAngle = Some 35, wristExtensionAngle = None,
      maxWristFlexion = Some 35, maxWristExtension = None\<rparr>"

definition mixedRepetition :: repetition where
  "mixedRepetition =
     \<lparr>rep_romData = Some \<lparr>rd_mcpAngle = JNum 30, rd_pipAngle = JNum 60, rd_dipAngle = JNum 10,
                          rd_totalActiveRom = JNum 100\<rparr>,
      rep_wristFlexionAngle = JNum 20, rep_wristExtensionAngle = JUndefined,
      rep_maxWristFlexion = JUndefined, rep_maxWristExtension = JUndefined,
      rep_motionData = Some [\<lparr>fr_landmarks = None,
                              fr_wristAngles = Some \<lparr>wa_wristFlexionAngle = JNum 50,
                                                     wa_wristExtensionAngle = JNum 25\<rparr>\<rparr>]\<rparr>"

text \<open>A recording session locked to the left hand, and a tracker update that reports the
  right hand in every slot, two seconds into the recording.\<close>

definition lockedLeft :: recording where
  "lockedLeft =
     \<lparr>st_handDetected = True, st_landmarksCount = 21, st_trackingQuality = ''Good'',
      currentRepetition = 1, recordedData = [],
      detectedHandType = LEFT, sessionHandType = LEFT, isRecording = True, isCountingDown = False,
      countdownTimer = 0, recordingStartTime = Some 1000,
      maxROM = \<lparr>mcpAngle = 0, pipAngle = 0, dipAngle = 0, ja_totalActiveRom = 0\<rparr>,
      sessionMaxWristAngles = \<lparr>s_maxWristFlexion = 0, s_maxWristExtension = 0\<rparr>,
      sessionMaxDeviation = \<lparr>maxRadialDeviation = 0, maxUlnarDeviation = 0\<rparr>,
      recordingMotionData = []\<rparr>"

definition reportsRight :: trackerData where
  "reportsRight =
     \<lparr>handDetected = True, landmarksCount = 21, trackingQuality = ''Good'',
      landmarks = Some (replicate 21 (0, 0, 0)), poseLandmarks = None,
      detectedHandSide = Some RIGHT, d_handType = Some RIGHT, lockedHandType = Some RIGHT,
      d_sessionHandType = Some RIGHT, d_wristDeviation = None, d_wristAngles = None,
      sessionElbowIndex = Some 13, sessionWristIndex = Some 15, sessionElbowLocked = Some True\<rparr>"

text \<open>A hand with every landmark at the origin, the thumb tip moved away from it, and the
  same with the first target of the ladder moved along; a ladder of ten targets and a
  proximity threshold.\<close>

definition flatHand :: "landmark list" where
  "flatHand = replicate 21 (0, 0, 0)"

definition thumbAway :: "landmark list" where
  "thumbAway = flatHand[4 := (1, 0, 0)]"

definition thumbOnFirst :: "landmark list" where
  "thumbOnFirst = flatHand[4 := (1, 0, 0), 5 := (1, 0, 0)]"

definition exampleThreshold :: real where
  "exampleThreshold = 5 / 100"

definition exampleLadder :: "landmark list \<Rightarrow> landmark list" where
  "exampleLadder lms = map (\<lambda>i. lms ! i) [5, 6, 8, 12, 16, 20, 19, 18, 17, 13]"

text \<open>Twenty-seven questions answered with 3, three left unanswered.\<close>

definition moderateResponses :: "(nat \<times> real) list" where
  "moderateResponses =
     [(1, 3), (2, 3), (3, 3), (4, 3), (5, 3), (6, 3), (7, 3), (8, 3), (9, 3),
      (10, 3), (11, 3), (12, 3), (13, 3), (14, 3), (15, 3), (16, 3), (17, 3), (18, 3),
      (19, 3), (20, 3), (21, 3), (22, 3), (23, 3), (24, 3), (25, 3), (26, 3), (27, 3)]"




text \<open>Stand-ins for the calculators that are not at hand: no result for the current frame, no
  movement of the index finger, no wrist maxima.\<close>

definition noCurrentROM :: "landmark list \<Rightarrow> JointAngles option" where
  "noCurrentROM lms = None"






section \<open>Properties of the wrist angle module\<close>

subsection \<open>Normalisation, clamping and the cross product\<close>

lemma py_unit_ok: "py_unit v = Inr (unitv v)"
  by (simp add: py_unit_def np_divide_def Let_def unitv_def)

lemma length_unitv: "length (unitv v) = length v"
  by (simp add: unitv_def)

lemma clip_bounds: "- 1 \<le> clip (- 1) 1 x \<and> clip (- 1) 1 x \<le> 1"
  by (simp add: clip_def)

lemma np_arccos_clip: "np_arccos (clip (- 1) 1 x) = Inr (arccos (clip (- 1) 1 x))"
  using clip_bounds[of x] by (simp add: np_arccos_def)

lemma np_cross3: "length a = 3 \<Longrightarrow> length b = 3 \<Longrightarrow>
  np_cross a b = Inr [a ! 1 * b ! 2 - a ! 2 * b ! 1, a ! 2 * b ! 0 - a ! 0 * b ! 2, a ! 0 * b ! 1 - a ! 1 * b ! 0]"
  by (simp add: np_cross_def pad3_def)

lemma frame_angle_3x3:
  assumes "length e = 3" "length w = 3" "length h = 3"
  shows "frame_angle [e, w, h] =
    Inr (arccos (clip (- 1) 1 (sum_list (map2 times (unitv (map2 (-) w e)) (unitv (map2 (-) h w))))) * DEG
         * sgn (unitv (map2 (-) w e) ! 0 * unitv (map2 (-) h w) ! 1
                - unitv (map2 (-) w e) ! 1 * unitv (map2 (-) h w) ! 0 + 1 / 10 ^ 9)
         * (if w ! 0 < e ! 0 then - 1 else 1))"
proof -
  have l1: "length (unitv (map2 (-) w e)) = 3" "length (unitv (map2 (-) h w)) = 3"
    using assms by (simp_all add: length_unitv)
  have ne: "w \<noteq> []" "e \<noteq> []" using assms by auto
  show ?thesis
    unfolding frame_angle_def
    by (simp add: py_unit_ok np_arccos_clip np_cross3[OF l1] Let_def ne)
qed

lemma list3: "length a = 3 \<Longrightarrow> \<exists>x y z. a = [x, y, z]"
  by (auto simp: numeral_3_eq_3 length_Suc_conv)

lemma unit_dot3:
  assumes "0 < linalg_norm [a0,a1,a2]" "0 < linalg_norm [b0,b1,b2]"
  shows "sum_list (map2 times (unitv [a0,a1,a2]) (unitv [b0,b1,b2])) =
      (a0 * b0 + a1 * b1 + a2 * b2) / (linalg_norm [a0,a1,a2] * linalg_norm [b0,b1,b2])"
  using assms by (simp add: unitv_def add_divide_distrib)

lemma unit_crossz3:
  assumes "0 < linalg_norm [a0,a1,a2]" "0 < linalg_norm [b0,b1,b2]"
  shows "unitv [a0,a1,a2] ! 0 * unitv [b0,b1,b2] ! 1 - unitv [a0,a1,a2] ! 1 * unitv [b0,b1,b2] ! 0 =
      (a0 * b1 - a1 * b0) / (linalg_norm [a0,a1,a2] * linalg_norm [b0,b1,b2])"
  using assms by (simp add: unitv_def diff_divide_distrib)

lemma norm_prod3: "linalg_norm [a0,a1,a2] * linalg_norm [b0,b1,b2] =
   sqrt ((a0*a0 + a1*a1 + a2*a2) * (b0*b0 + b1*b1 + b2*b2))"
  by (simp add: linalg_norm_def real_sqrt_mult add.assoc)

lemma norm_pos3: "0 < a0*a0 + a1*a1 + a2*a2 \<Longrightarrow> 0 < linalg_norm [a0,a1,a2]"
  by (simp add: linalg_norm_def)

text \<open>The angle in degrees, from the sign and the size of the cosine.\<close>

lemma arccos_gt_90: "- 1 \<le> c \<Longrightarrow> c < 0 \<Longrightarrow> 90 < arccos c * DEG"
proof -
  assume a: "- 1 \<le> c" "c < 0"
  have "arccos 0 < arccos c" using a by (intro arccos_less_arccos) auto
  hence "pi / 2 < arccos c" by (simp add: arccos_0)
  hence "pi / 2 * (180 / pi) < arccos c * (180 / pi)"
    by (intro mult_strict_right_mono) auto
  thus ?thesis by (simp add: DEG_def)
qed

lemma arccos_lt_120: "- (1/2) < c \<Longrightarrow> c \<le> 1 \<Longrightarrow> arccos c * DEG < 120"
proof -
  assume a: "- (1/2) < c" "c \<le> 1"
  have "arccos c < arccos (- (1/2))" using a by (intro arccos_less_arccos) auto
  hence "arccos c < 2 * pi / 3" by (simp add: arccos_minus_one_half)
  hence "arccos c * (180 / pi) < 2 * pi / 3 * (180 / pi)"
    by (intro mult_strict_right_mono) auto
  thus ?thesis by (simp add: DEG_def)
qed

lemma arccos_lt_90: "0 < c \<Longrightarrow> c \<le> 1 \<Longrightarrow> arccos c * DEG < 90"
proof -
  assume a: "0 < c" "c \<le> 1"
  have "arccos c < arccos 0" using a by (intro arccos_less_arccos) auto
  hence "arccos c < pi / 2" by (simp add: arccos_0)
  hence "arccos c * (180 / pi) < pi / 2 * (180 / pi)"
    by (intro mult_strict_right_mono) auto
  thus ?thesis by (simp add: DEG_def)
qed

lemma arccos_gt_60: "- 1 \<le> c \<Longrightarrow> c < 1/2 \<Longrightarrow> 60 < arccos c * DEG"
proof -
  assume a: "- 1 \<le> c" "c < 1/2"
  have "arccos (1/2) < arccos c" using a by (intro arccos_less_arccos) auto
  hence "pi / 3 < arccos c" by (simp add: arccos_one_half)
  hence "pi / 3 * (180 / pi) < arccos c * (180 / pi)"
    by (intro mult_strict_right_mono) auto
  thus ?thesis by (simp add: DEG_def)
qed

text \<open>In each of the three test frames the product of the two norms is the square root of
  0.05 * 0.0254 = 127/100000.\<close>

lemma P_bounds: "24 / 1000 < sqrt (127 / 100000 :: real)" "sqrt (127 / 100000 :: real) < 1" 
proof -
  show "24 / 1000 < sqrt (127 / 100000 :: real)"
    by (rule real_less_rsqrt) (simp add: power2_eq_square)
  show "sqrt (127 / 100000 :: real) < 1"
    by (rule real_less_lsqrt) (simp_all add: power2_eq_square)
qed

lemma clip_id: "- 1 \<le> x \<Longrightarrow> x \<le> 1 \<Longrightarrow> clip (- 1) 1 x = x"
  by (simp add: clip_def)

lemma frame1: "\<exists>a. frame_angle [R_elbow, R_wrist, R_hand] = Inr a \<and> - 120 < a \<and> a < - 90"
proof -
  let ?fa = "[1/10, 1/5, 0] :: real list" and ?hv = "[- (1/50), - (1/20), 3/20] :: real list"
  have fa: "map2 (-) R_wrist R_elbow = ?fa" and hv: "map2 (-) R_hand R_wrist = ?hv"
    by (simp_all add: R_wrist_def R_elbow_def R_hand_def)
  have pf: "0 < linalg_norm ?fa" and ph: "0 < linalg_norm ?hv"
    by (rule norm_pos3, simp)+
  have P: "linalg_norm ?fa * linalg_norm ?hv = sqrt (127 / 100000)"
    by (simp add: norm_prod3)
  define p where "p = sqrt (127 / 100000 :: real)"
  have pb: "24 / 1000 < p" "p < 1" unfolding p_def using P_bounds by auto
  have dot: "sum_list (map2 times (unitv ?fa) (unitv ?hv)) = - (12 / 1000) / p"
    unfolding unit_dot3[OF pf ph] P p_def by simp
  have cz: "unitv ?fa ! 0 * unitv ?hv ! 1 - unitv ?fa ! 1 * unitv ?hv ! 0 = - (1 / 1000) / p"
    unfolding unit_crossz3[OF pf ph] P p_def by simp
  have d1: "- (12 / 1000) / p < 0" using pb by (simp add: field_simps)
  have d2: "- (1/2) < - (12 / 1000) / p" using pb by (simp add: field_simps)
  have cl: "clip (- 1) 1 (- (12 / 1000) / p) = - (12 / 1000) / p"
    using d1 d2 by (intro clip_id) linarith+
  have sg: "sgn (- (1 / 1000) / p + 1 / 10 ^ 9) = - 1"
  proof -
    have "1 / 1000 < 1 / 1000 / p" using pb by (simp add: field_simps)
    hence "- (1 / 1000) / p + 1 / 10 ^ 9 < 0" by simp
    thus ?thesis by simp
  qed
  have th: "90 < arccos (- (12 / 1000) / p) * DEG" "arccos (- (12 / 1000) / p) * DEG < 120"
    using arccos_gt_90[of "- (12 / 1000) / p"] arccos_lt_120[of "- (12 / 1000) / p"] d1 d2 by auto
  have len: "length R_elbow = 3" "length R_wrist = 3" "length R_hand = 3"
    by (simp_all add: R_wrist_def R_elbow_def R_hand_def)
  have side: "(if R_wrist ! 0 < R_elbow ! 0 then - 1 else 1) = (1::real)"
    by (simp add: R_wrist_def R_elbow_def)
  have "frame_angle [R_elbow, R_wrist, R_hand] = Inr (arccos (- (12 / 1000) / p) * DEG * (- 1) * 1)"
    unfolding frame_angle_3x3[OF len] fa hv dot cz cl sg side ..
  thus ?thesis using th by simp
qed

lemma frame2: "\<exists>a. frame_angle [R_elbow, R_wrist, R_hand2] = Inr a \<and> 60 < a \<and> a < 90"
proof -
  let ?fa = "[1/10, 1/5, 0] :: real list" and ?hv = "[1/50, 1/20, 3/20] :: real list"
  have fa: "map2 (-) R_wrist R_elbow = ?fa" and hv: "map2 (-) R_hand2 R_wrist = ?hv"
    by (simp_all add: R_wrist_def R_elbow_def R_hand2_def)
  have pf: "0 < linalg_norm ?fa" and ph: "0 < linalg_norm ?hv"
    by (rule norm_pos3, simp)+
  have P: "linalg_norm ?fa * linalg_norm ?hv = sqrt (127 / 100000)"
    by (simp add: norm_prod3)
  define p where "p = sqrt (127 / 100000 :: real)"
  have pb: "24 / 1000 < p" "p < 1" unfolding p_def using P_bounds by auto
  have dot: "sum_list (map2 times (unitv ?fa) (unitv ?hv)) = (12 / 1000) / p"
    unfolding unit_dot3[OF pf ph] P p_def by simp
  have cz: "unitv ?fa ! 0 * unitv ?hv ! 1 - unitv ?fa ! 1 * unitv ?hv ! 0 = (1 / 1000) / p"
    unfolding unit_crossz3[OF pf ph] P p_def by simp
  have d1: "0 < (12 / 1000) / p" using pb by (simp add: field_simps)
  have d2: "(12 / 1000) / p < 1/2" using pb by (simp add: field_simps)
  have cl: "clip (- 1) 1 ((12 / 1000) / p) = (12 / 1000) / p"
    using d1 d2 by (intro clip_id) linarith+
  have sg: "sgn ((1 / 1000) / p + 1 / 10 ^ 9) = 1"
  proof -
    have "0 < 1 / 1000 / p" using pb by (simp add: field_simps)
    moreover have "(0::real) < 1 / 10 ^ 9" by simp
    ultimately have "0 < (1 / 1000) / p + 1 / 10 ^ 9" by (rule add_pos_pos)
    thus ?thesis by simp
  qed
  have th: "60 < arccos ((12 / 1000) / p) * DEG" "arccos ((12 / 1000) / p) * DEG < 90"
    using arccos_gt_60[of "(12 / 1000) / p"] arccos_lt_90[of "(12 / 1000) / p"] d1 d2 by auto
  have len: "length R_elbow = 3" "length R_wrist = 3" "length R_hand2 = 3"
    by (simp_all add: R_wrist_def R_elbow_def R_hand2_def)
  have side: "(if R_wrist ! 0 < R_elbow ! 0 then - 1 else 1) = (1::real)"
    by (simp add: R_wrist_def R_elbow_def)
  have "frame_angle [R_elbow, R_wrist, R_hand2] = Inr (arccos ((12 / 1000) / p) * DEG * 1 * 1)"
    unfolding frame_angle_3x3[OF len] fa hv dot cz cl sg side ..
  thus ?thesis using th by simp
qed

lemma frame3: "\<exists>a. frame_angle [L_elbow, L_wrist, L_hand] = Inr a \<and> - 120 < a \<and> a < - 90"
proof -
  let ?fa = "[- (1/10), 1/5, 0] :: real list" and ?hv = "[1/50, - (1/20), 3/20] :: real list"
  have fa: "map2 (-) L_wrist L_elbow = ?fa" and hv: "map2 (-) L_hand L_wrist = ?hv"
    by (simp_all add: L_wrist_def L_elbow_def L_hand_def)
  have pf: "0 < linalg_norm ?fa" and ph: "0 < linalg_norm ?hv"
    by (rule norm_pos3, simp)+
  have P: "linalg_norm ?fa * linalg_norm ?hv = sqrt (127 / 100000)"
    by (simp add: norm_prod3)
  define p where "p = sqrt (127 / 100000 :: real)"
  have pb: "24 / 1000 < p" "p < 1" unfolding p_def using P_bounds by auto
  have dot: "sum_list (map2 times (unitv ?fa) (unitv ?hv)) = - (12 / 1000) / p"
    unfolding unit_dot3[OF pf ph] P p_def by simp
  have cz: "unitv ?fa ! 0 * unitv ?hv ! 1 - unitv ?fa ! 1 * unitv ?hv ! 0 = (1 / 1000) / p"
    unfolding unit_crossz3[OF pf ph] P p_def by simp
  have d1: "- (12 / 1000) / p < 0" using pb by (simp add: field_simps)
  have d2: "- (1/2) < - (12 / 1000) / p" using pb by (simp add: field_simps)
  have cl: "clip (- 1) 1 (- (12 / 1000) / p) = - (12 / 1000) / p"
    using d1 d2 by (intro clip_id) linarith+
  have sg: "sgn ((1 / 1000) / p + 1 / 10 ^ 9) = 1"
  proof -
    have "0 < 1 / 1000 / p" using pb by (simp add: field_simps)
    moreover have "(0::real) < 1 / 10 ^ 9" by simp
    ultimately have "0 < (1 / 1000) / p + 1 / 10 ^ 9" by (rule add_pos_pos)
    thus ?thesis by simp
  qed
  have th: "90 < arccos (- (12 / 1000) / p) * DEG" "arccos (- (12 / 1000) / p) * DEG < 120"
    using arccos_gt_90[of "- (12 / 1000) / p"] arccos_lt_120[of "- (12 / 1000) / p"] d1 d2 by auto
  have len: "length L_elbow = 3" "length L_wrist = 3" "length L_hand = 3"
    by (simp_all add: L_wrist_def L_elbow_def L_hand_def)
  have side: "(if L_wrist ! 0 < L_elbow ! 0 then - 1 else 1) = (- 1::real)"
    by (simp add: L_wrist_def L_elbow_def)
  have "frame_angle [L_elbow, L_wrist, L_hand] = Inr (arccos (- (12 / 1000) / p) * DEG * 1 * (- 1))"
    unfolding frame_angle_3x3[OF len] fa hv dot cz cl sg side ..
  thus ?thesis using th by simp
qed


lemma np_round_lt: "x < of_int n \<Longrightarrow> np_round x \<le> n"
  unfolding np_round_def Let_def by (auto; linarith)

lemma np_round_gt: "of_int n < x \<Longrightarrow> n \<le> np_round x"
  unfolding np_round_def Let_def by (auto; linarith)

text \<open>
  Claim C1.  The module's unit test feeds the three synthetic frames (right arm twice, mirrored
  left arm) and expects the rounded angles +60, -30 and +60.  On these frames the function
  returns an angle between -120 and -90 for the first, between 60 and 90 for the second and
  between -120 and -90 for the third: the forearm and hand vectors enclose about 110 and 70
  degrees, the sign of the first frame is negative, and the side factor turns the sign of
  the left arm, so none of the three rounds to the expected value.
\<close>

theorem wrist_angle_unit_test_values:
  "\<exists>a b c. wrist_angle test_frames 1 = Inr [a, b, c]
     \<and> - 120 < a \<and> a < - 90 \<and> 60 < b \<and> b < 90 \<and> - 120 < c \<and> c < - 90
     \<and> np_round a \<noteq> 60 \<and> np_round b \<noteq> - 30 \<and> np_round c \<noteq> 60"
proof -
  obtain a where a: "frame_angle [R_elbow, R_wrist, R_hand] = Inr a" "- 120 < a" "a < - 90"
    using frame1 by blast
  obtain b where b: "frame_angle [R_elbow, R_wrist, R_hand2] = Inr b" "60 < b" "b < 90"
    using frame2 by blast
  obtain c where c: "frame_angle [L_elbow, L_wrist, L_hand] = Inr c" "- 120 < c" "c < - 90"
    using frame3 by blast
  have w: "wrist_angle test_frames 1 = Inr [a, b, c]"
    by (simp add: wrist_angle_def Let_def test_frames_def a b c)
  have "np_round a \<le> - 90" using np_round_lt[of a "- 90"] a by simp
  moreover have "60 \<le> np_round b" using np_round_gt[of 60 b] b by simp
  moreover have "np_round c \<le> - 90" using np_round_lt[of c "- 90"] c by simp
  ultimately show ?thesis using w a b c by auto
qed

subsection \<open>A single frame of shape (3, 3), and frames in a batch\<close>

lemma np_cross_dim1: "length a = 1 \<Longrightarrow> np_cross a b = Inl ValueError"
  by (simp add: np_cross_def)

lemma frame_angle_single:
  assumes "length e = 3"
  shows "frame_angle (map (\<lambda>x. [x]) e) = Inl ValueError"
proof -
  obtain x y z where e: "e = [x, y, z]" using list3[OF assms] by blast
  have l: "length (unitv [y - x]) = 1" by (simp add: length_unitv)
  show ?thesis
    unfolding frame_angle_def e
    by (simp add: py_unit_ok np_arccos_clip np_cross_dim1[OF l] Let_def)
qed

lemma wrist_angle_single:
  assumes "length e = 3"
  shows "wrist_angle (Arr2 (e # rest)) k = Inl ValueError"
  by (simp add: wrist_angle_def Let_def frame_angle_single[OF assms])

lemma arccos_deg_bounds: "0 \<le> arccos (clip (- 1) 1 x) * DEG \<and> arccos (clip (- 1) 1 x) * DEG \<le> 180"
proof -
  have b: "0 \<le> arccos (clip (- 1) 1 x)" "arccos (clip (- 1) 1 x) \<le> pi"
    using arccos_bounded[of "clip (- 1) 1 x"] clip_bounds[of x] by auto
  have "arccos (clip (- 1) 1 x) * (180 / pi) \<le> pi * (180 / pi)"
    using b by (intro mult_right_mono) auto
  thus ?thesis using b by (simp add: DEG_def)
qed

lemma signed_bound:
  fixes t z k :: real
  assumes "0 \<le> t" "t \<le> 180" "\<bar>k\<bar> = 1"
  shows "\<bar>t * sgn z * k\<bar> \<le> 180"
proof -
  have "\<bar>sgn z\<bar> \<le> 1" by (simp add: abs_sgn_eq)
  hence "t * \<bar>sgn z\<bar> \<le> t * 1" using assms(1) by (intro mult_left_mono) auto
  moreover have "\<bar>t * sgn z * k\<bar> = t * \<bar>sgn z\<bar>"
    using assms by (simp only: abs_mult abs_of_nonneg mult_1_right)
  ultimately show ?thesis using assms(2) by linarith
qed

lemma frame_angle_defined:
  assumes "length f = 3" "\<forall>p \<in> set f. length p = 3"
  shows "\<exists>a. frame_angle f = Inr a \<and> \<bar>a\<bar> \<le> 180"
proof -
  obtain e w h where f: "f = [e, w, h]" using list3[OF assms(1)] by blast
  have len: "length e = 3" "length w = 3" "length h = 3" using assms(2) f by auto
  have k: "\<bar>(if w ! 0 < e ! 0 then - 1 else 1) :: real\<bar> = 1" by simp
  show ?thesis
    unfolding f frame_angle_3x3[OF len]
    using signed_bound[OF conjunct1[OF arccos_deg_bounds] conjunct2[OF arccos_deg_bounds] k]
    by blast
qed

lemma sequence_err_ok:
  "\<forall>r \<in> set rs. \<exists>x. r = Inr x \<Longrightarrow> \<exists>xs. sequence_err rs = Inr xs \<and> length xs = length rs"
proof (induction rs)
  case Nil
  then show ?case by simp
next
  case (Cons r rs)
  then obtain x where "r = Inr x" by auto
  moreover obtain xs where "sequence_err rs = Inr xs" "length xs = length rs" using Cons by auto
  ultimately show ?case by simp
qed

lemma unitv_zero: "unitv [0, 0, 0] = [0, 0, 0]"
  by (simp add: unitv_def linalg_norm_def)

lemma map2_minus_self: "length e = 3 \<Longrightarrow> map2 (-) e e = [0, 0, 0 :: real]"
  using list3[of e] by auto

lemma frame_angle_zero_forearm:
  assumes "length e = 3" "length h = 3"
  shows "frame_angle [e, e, h] = Inr 90"
proof -
  have l: "length (unitv (map2 (-) h e)) = 3" using assms by (simp add: length_unitv)
  then obtain p q r where u: "unitv (map2 (-) h e) = [p, q, r]" using list3 by blast
  have d: "sum_list (map2 times [0, 0, 0] [p, q, r]) = 0" by simp
  have c: "[0, 0, 0 :: real] ! 0 * [p, q, r] ! 1 - [0, 0, 0] ! 1 * [p, q, r] ! 0 + 1 / 10 ^ 9 = 1 / 10 ^ 9"
    by simp
  have s: "sgn (1 / 10 ^ 9 :: real) = 1" by simp
  have cl: "clip (- 1) 1 0 = 0" by (simp add: clip_def)
  have k: "(if e ! 0 < e ! 0 then - 1 else 1) = (1 :: real)" by simp
  have "frame_angle [e, e, h] = Inr (arccos 0 * DEG * 1 * 1)"
    unfolding frame_angle_3x3[OF assms(1) assms(1) assms(2)] map2_minus_self[OF assms(1)] unitv_zero u d c s cl k ..
  thus ?thesis by (simp add: arccos_0 DEG_def)
qed

subsection \<open>The moving median writes every entry of its output\<close>

lemma sort_Nil_iff: "(sort xs = []) = (xs = [])"
  by (metis length_0_conv length_sort)

lemma np_median_value:
  "xs \<noteq> [] \<Longrightarrow> np_median xs =
     Inr (if even (length xs) then (sort xs ! (length xs div 2 - 1) + sort xs ! (length xs div 2)) / 2
          else sort xs ! (length xs div 2))"
  by (simp add: np_median_def Let_def sort_Nil_iff)

lemma np_median_defined: "xs \<noteq> [] \<Longrightarrow> \<exists>m. np_median xs = Inr m"
  using np_median_value by blast

lemma deque_append_nonempty: "deque_append k buf val \<noteq> []"
  by (simp add: deque_append_def)

lemma median_loop_defined:
  "\<exists>out'. median_loop k half i buf vals out = Inr out' \<and> length out' = length out
      \<and> (\<forall>p < length out. out ! p \<noteq> None \<longrightarrow> out' ! p \<noteq> None)
      \<and> (\<forall>j. i \<le> j \<and> j < i + length vals \<and> (if j < half then j else j - half) < length out
             \<longrightarrow> out' ! (if j < half then j else j - half) \<noteq> None)"
proof (induction vals arbitrary: i buf out)
  case Nil
  show ?case by auto
next
  case (Cons val rest)
  let ?buf = "deque_append k buf val"
  obtain m where m: "np_median ?buf = Inr m"
    using np_median_defined[OF deque_append_nonempty] by blast
  let ?q = "if i < half then i else i - half"
  let ?out1 = "out[?q := Some m]"
  obtain out' where o: "median_loop k half (Suc i) ?buf rest ?out1 = Inr out'"
      "length out' = length ?out1"
      "\<forall>p < length ?out1. ?out1 ! p \<noteq> None \<longrightarrow> out' ! p \<noteq> None"
      "\<forall>j. Suc i \<le> j \<and> j < Suc i + length rest \<and> (if j < half then j else j - half) < length ?out1
             \<longrightarrow> out' ! (if j < half then j else j - half) \<noteq> None"
    using Cons.IH[of "Suc i" ?buf ?out1] by blast
  have eq: "median_loop k half i buf (val # rest) out = Inr out'"
    using o(1) m by (simp add: Let_def split: if_splits)
  have pres: "\<forall>p < length out. out ! p \<noteq> None \<longrightarrow> out' ! p \<noteq> None"
  proof (intro allI impI)
    fix p assume p: "p < length out" "out ! p \<noteq> None"
    hence "?out1 ! p \<noteq> None" by (cases "p = ?q") (simp_all del: if_split)
    thus "out' ! p \<noteq> None" using o(3) p(1) by simp
  qed
  have wr: "\<forall>j. i \<le> j \<and> j < i + length (val # rest) \<and> (if j < half then j else j - half) < length out
             \<longrightarrow> out' ! (if j < half then j else j - half) \<noteq> None"
  proof (intro allI impI)
    fix j assume j: "i \<le> j \<and> j < i + length (val # rest) \<and> (if j < half then j else j - half) < length out"
    show "out' ! (if j < half then j else j - half) \<noteq> None"
    proof (cases "j = i")
      case True
      hence "?q < length out" using j by auto
      hence "?out1 ! ?q \<noteq> None" by (simp del: if_split)
      hence "out' ! ?q \<noteq> None" using o(3) \<open>?q < length out\<close> by (simp del: if_split)
      thus ?thesis using True by (simp split: if_splits)
    next
      case False
      hence "Suc i \<le> j \<and> j < Suc i + length rest \<and> (if j < half then j else j - half) < length ?out1"
        using j by simp
      thus ?thesis using o(4) by blast
    qed
  qed
  show ?case using eq o(2) pres wr by (intro exI[of _ out']) (simp del: if_split)
qed

lemma tail_loop_defined:
  assumes "half + 1 \<le> length out" "\<forall>i \<in> set is. i < half" "out ! (length out - (half + 1)) \<noteq> None"
  shows "\<exists>out'. tail_loop half is out = Inr out' \<and> length out' = length out
      \<and> (\<forall>p < length out. out ! p \<noteq> None \<longrightarrow> out' ! p \<noteq> None)
      \<and> (\<forall>i \<in> set is. out' ! (length out - (i + 1)) \<noteq> None)"
  using assms
proof (induction "is" arbitrary: out)
  case Nil
  show ?case by simp
next
  case (Cons i "is")
  let ?n = "length out"
  let ?out1 = "out[?n - (i + 1) := out ! (?n - (half + 1))]"
  have i: "i < half" using Cons.prems(2) by simp
  have src: "?out1 ! (length ?out1 - (half + 1)) \<noteq> None"
    using Cons.prems(1,3) i by simp
  obtain out' where o: "tail_loop half is ?out1 = Inr out'" "length out' = length ?out1"
     "\<forall>p < length ?out1. ?out1 ! p \<noteq> None \<longrightarrow> out' ! p \<noteq> None"
     "\<forall>i \<in> set is. out' ! (length ?out1 - (i + 1)) \<noteq> None"
    using Cons.IH[of ?out1] Cons.prems(1,2) src by auto
  have eq: "tail_loop half (i # is) out = Inr out'"
    using o(1) Cons.prems(1) i by (simp add: Let_def)
  have pres: "\<forall>p < length out. out ! p \<noteq> None \<longrightarrow> out' ! p \<noteq> None"
  proof (intro allI impI)
    fix p assume p: "p < length out" "out ! p \<noteq> None"
    hence "?out1 ! p \<noteq> None" using Cons.prems(3) by (cases "p = ?n - (i + 1)") simp_all
    thus "out' ! p \<noteq> None" using o(3) p(1) by simp
  qed
  have "?out1 ! (?n - (i + 1)) \<noteq> None" using Cons.prems(1,3) i by simp
  hence here: "out' ! (?n - (i + 1)) \<noteq> None" using o(3) Cons.prems(1) i by simp
  show ?case using eq o(2) pres here o(4) by (intro exI[of _ out']) simp
qed

lemma read_all_defined:
  "\<forall>p < length out. out ! p \<noteq> None \<Longrightarrow> \<exists>xs. read_all out = Inr xs \<and> length xs = length out"
proof (induction out)
  case Nil
  show ?case by simp
next
  case (Cons a out)
  from Cons.prems have "a \<noteq> None" by (metis length_greater_0_conv list.simps(3) nth_Cons_0)
  then obtain x where a: "a = Some x" by auto
  have "\<forall>p < length out. out ! p \<noteq> None" using Cons.prems by (metis Suc_less_eq length_Cons nth_Cons_Suc)
  then obtain xs where "read_all out = Inr xs" "length xs = length out" using Cons.IH by blast
  thus ?case using a by simp
qed

lemma median_filter_defined:
  assumes "2 \<le> k" "k \<le> length xs"
  shows "\<exists>ys. median_filter k xs = Inr ys \<and> length ys = length xs"
proof -
  let ?n = "length xs" and ?half = "k div 2"
  let ?out0 = "replicate ?n (None :: real option)"
  have half: "1 \<le> ?half" "2 * ?half \<le> k" using assms(1) by auto
  obtain out1 where o1: "median_loop k ?half 0 [] xs ?out0 = Inr out1" "length out1 = ?n"
     "\<forall>j. 0 \<le> j \<and> j < 0 + length xs \<and> (if j < ?half then j else j - ?half) < length ?out0
             \<longrightarrow> out1 ! (if j < ?half then j else j - ?half) \<noteq> None"
    using median_loop_defined[of k ?half 0 "[]" xs ?out0] by auto
  have low: "out1 ! p \<noteq> None" if "p + ?half < ?n" for p
    using o1(3)[rule_format, of "p + ?half"] that by simp
  have hn: "?half + 1 \<le> length out1" using o1(2) half assms by linarith
  have src: "out1 ! (length out1 - (?half + 1)) \<noteq> None"
    using low[of "?n - (?half + 1)"] hn o1(2) by simp
  obtain out2 where o2: "tail_loop ?half [0..<?half] out1 = Inr out2" "length out2 = length out1"
      "\<forall>p < length out1. out1 ! p \<noteq> None \<longrightarrow> out2 ! p \<noteq> None"
      "\<forall>i \<in> set [0..<?half]. out2 ! (length out1 - (i + 1)) \<noteq> None"
    using tail_loop_defined[OF hn _ src, of "[0..<?half]"] by auto
  have all: "\<forall>p < length out2. out2 ! p \<noteq> None"
  proof (intro allI impI)
    fix p assume p: "p < length out2"
    show "out2 ! p \<noteq> None"
    proof (cases "p + ?half < ?n")
      case True
      thus ?thesis using low[of p] o2(3) p o2(2) by simp
    next
      case False
      hence "?n - (p + 1) < ?half" using p o2(2) o1(2) by linarith
      hence "out2 ! (length out1 - ((?n - (p + 1)) + 1)) \<noteq> None" using o2(4) by simp
      moreover have "length out1 - ((?n - (p + 1)) + 1) = p" using p o2(2) o1(2) by linarith
      ultimately show ?thesis by simp
    qed
  qed
  obtain ys where "read_all out2 = Inr ys" "length ys = length out2"
    using read_all_defined[OF all] by blast
  thus ?thesis using o1(1,2) o2(1,2) by (simp add: median_filter_def Let_def)
qed



lemma sequence_err_length: "sequence_err rs = Inr xs \<Longrightarrow> length xs = length rs"
proof (induction rs arbitrary: xs rule: sequence_err.induct)
  case 1
  then show ?case by simp
next
  case (2 e' rs)
  then show ?case by simp
next
  case (3 x rs)
  then show ?case by (auto split: sum.splits)
qed

lemma wrist_angle_nonempty:
  "atleast_3d a \<noteq> [] \<Longrightarrow>
   wrist_angle a k =
     (case sequence_err (map frame_angle (atleast_3d a)) of
        Inl e \<Rightarrow> Inl e
      | Inr signed_theta \<Rightarrow>
          if k > 1 \<and> int (length signed_theta) \<ge> k
          then median_filter (nat k) signed_theta
          else Inr signed_theta)"
  by (simp add: wrist_angle_def Let_def)

lemma wrist_angle_empty: "wrist_angle (Arr3 []) k = Inl ValueError"
  by (simp add: wrist_angle_def)


lemma wrist_angle_batch_defined:
  assumes "frames \<noteq> []" "\<forall>f \<in> set frames. length f = 3 \<and> (\<forall>p \<in> set f. length p = 3)"
  shows "\<exists>angles. wrist_angle (Arr3 frames) k = Inr angles \<and> length angles = length frames"
proof -
  have ne: "atleast_3d (Arr3 frames) \<noteq> []" using assms(1) by simp
  note wa = wrist_angle_nonempty[OF ne, of k, simplified]
  have "\<forall>r \<in> set (map frame_angle frames). \<exists>x. r = Inr x"
    using assms frame_angle_defined by fastforce
  from sequence_err_ok[OF this] obtain xs where xs: "sequence_err (map frame_angle frames) = Inr xs"
    "length xs = length frames" by auto
  show ?thesis
  proof (cases "k > 1 \<and> int (length xs) \<ge> k")
    case True
    hence "\<exists>ys. median_filter (nat k) xs = Inr ys \<and> length ys = length xs"
      by (intro median_filter_defined) linarith+
    thus ?thesis using xs True by (auto simp: wa)
  next
    case False
    thus ?thesis using xs by (auto simp: wa)
  qed
qed

lemma frame_angle_zero_hand:
  assumes "length e = 3" "length w = 3"
  shows "frame_angle [e, w, w] = Inr (if w ! 0 < e ! 0 then - 90 else 90)"
proof -
  have l: "length (unitv (map2 (-) w e)) = 3" using assms by (simp add: length_unitv)
  then obtain p q r where u: "unitv (map2 (-) w e) = [p, q, r]" using list3 by blast
  have d: "sum_list (map2 times [p, q, r] [0, 0, 0]) = 0" by simp
  have c: "[p, q, r] ! 0 * [0, 0, 0 :: real] ! 1 - [p, q, r] ! 1 * [0, 0, 0] ! 0 + 1 / 10 ^ 9 = 1 / 10 ^ 9"
    by simp
  have s: "sgn (1 / 10 ^ 9 :: real) = 1" by simp
  have cl: "clip (- 1) 1 0 = 0" by (simp add: clip_def)
  have "frame_angle [e, w, w] = Inr (arccos 0 * DEG * 1 * (if w ! 0 < e ! 0 then - 1 else 1))"
    unfolding frame_angle_3x3[OF assms(1) assms(2) assms(2)] map2_minus_self[OF assms(2)] unitv_zero u d c s cl ..
  thus ?thesis by (simp add: arccos_0 DEG_def)
qed

lemma frame_angle_abs:
  assumes "frame_angle f = Inr a"
  shows "\<bar>a\<bar> \<le> 180"
proof -
  have m1: "\<bar>arccos (clip (- 1) 1 x) * DEG * sgn z * - 1\<bar> \<le> 180" for x z :: real
    by (rule signed_bound[OF conjunct1[OF arccos_deg_bounds] conjunct2[OF arccos_deg_bounds] ]) simp
  have p1: "\<bar>arccos (clip (- 1) 1 x) * DEG * sgn z * 1\<bar> \<le> 180" for x z :: real
    by (rule signed_bound[OF conjunct1[OF arccos_deg_bounds] conjunct2[OF arccos_deg_bounds] ]) simp
  from assms show ?thesis
    unfolding frame_angle_def Let_def py_unit_ok np_arccos_clip
    apply (simp only: sum.simps split: if_split_asm sum.split_asm)
    using m1 p1 by blast+
qed

text \<open>
  Claim C8.  For frames given in a batch of shape (N, 3, 3) the guards do what the claim
  says (lemmas \<open>wrist_angle_batch_defined\<close>, \<open>frame_angle_zero_forearm\<close>,
  \<open>frame_angle_zero_hand\<close>: an angle for every frame of a batch that has one, 90 degrees
  in magnitude when the forearm or the hand vector has length zero).  A single frame of shape (3, 3), which the
  docstring admits, does not reach them: \<open>np.atleast_3d\<close> appends the new axis, the vectors
  become one-dimensional and \<open>np.cross\<close> raises ValueError.  Here the frame has a forearm of
  length zero (elbow = wrist).
\<close>

theorem wrist_angle_single_frame_raises:
  "wrist_angle (Arr2 [R_wrist, R_wrist, R_hand]) 1 = Inl ValueError
   \<and> wrist_angle (Arr3 [ [R_wrist, R_wrist, R_hand] ]) 1 = Inr [90]"
proof -
  have l: "length R_wrist = 3" "length R_hand = 3" by (simp_all add: R_wrist_def R_hand_def)
  show ?thesis
    using wrist_angle_single[OF l(1), of "[R_wrist, R_hand]" 1] frame_angle_zero_forearm[OF l]
    by (simp add: wrist_angle_def Let_def)
qed

section \<open>Session maxima only grow\<close>

lemma le_opt_refl: "le_opt x x"
  by (cases x) auto

lemma le_opt_trans: "le_opt x y \<Longrightarrow> le_opt y z \<Longrightarrow> le_opt x z"
  by (cases x; cases y; cases z) auto

lemma le_opt_max: "le_opt x (Some (max (null_or_zero x) v))"
  by (cases x) auto

lemma le_opt_foldDefined: "le_opt x (foldDefined x v)"
  by (cases v) (auto simp: le_opt_refl le_opt_max)

lemma maxima_le_refl: "maxima_le m m"
  by (simp add: maxima_le_def le_opt_refl)

lemma maxima_le_trans: "maxima_le a b \<Longrightarrow> maxima_le b c \<Longrightarrow> maxima_le a c"
  unfolding maxima_le_def by (blast intro: le_opt_trans)

lemma frameStep_le: "maxima_le m (frameStep m frame)"
  by (auto simp: frameStep_def maxima_le_def le_opt_refl le_opt_max Let_def split: option.splits jsnum.splits)

lemma foldl_frameStep_le: "maxima_le m (foldl frameStep m frames)"
proof (induction frames arbitrary: m)
  case Nil
  show ?case by (simp add: maxima_le_refl)
next
  case (Cons f fs)
  show ?case using maxima_le_trans[OF frameStep_le Cons] by simp
qed

lemma romStep_le: "maxima_le m (romStep m rep)"
  by (auto simp: romStep_def maxima_le_def le_opt_refl le_opt_max split: option.splits)

lemma wristStep_le: "maxima_le m (wristStep m rep)"
  by (simp add: wristStep_def maxima_le_def le_opt_refl le_opt_foldDefined)

lemma repStep_le: "maxima_le m (repStep m rep)"
proof -
  have a: "maxima_le m (wristStep (romStep m rep) rep)"
    by (rule maxima_le_trans[OF romStep_le wristStep_le])
  show ?thesis
    unfolding repStep_def Let_def using a maxima_le_trans[OF a foldl_frameStep_le]
    by (auto split: option.splits)
qed

lemma foldl_repStep_le: "maxima_le m (foldl repStep m reps)"
proof (induction reps arbitrary: m)
  case Nil
  show ?case by (simp add: maxima_le_refl)
next
  case (Cons r rs)
  show ?case using maxima_le_trans[OF repStep_le Cons] by simp
qed

lemma finalWrist_le: "maxima_le m (finalWrist m)"
  by (auto simp: finalWrist_def maxima_le_def le_opt_refl le_opt_max Let_def split: option.splits)

lemma client_le_refl: "client_le s s"
  by (simp add: client_le_def)

lemma client_le_trans: "client_le a b \<Longrightarrow> client_le b c \<Longrightarrow> client_le a c"
  unfolding client_le_def by linarith

lemma updateTracking_le: "client_le s (updateTracking d s)"
  by (simp add: updateTracking_def client_le_def)

lemma updateDetected_le: "client_le s (updateDetected d s)"
  by (auto simp: updateDetected_def client_le_def Let_def split: option.splits)

lemma updateDeviation_le: "client_le s (updateDeviation d s)"
  by (auto simp: updateDeviation_def client_le_def Let_def split: option.splits)

lemma updateSessionLock_le: "client_le s (updateSessionLock d s)"
  by (auto simp: updateSessionLock_def client_le_def split: option.splits)

lemma updateWristMax_le: "client_le s (updateWristMax d s)"
  by (auto simp: updateWristMax_def client_le_def split: option.splits)

lemma updateMaxROM_le: "client_le s (updateMaxROM C lms s)"
  by (auto simp: updateMaxROM_def client_le_def split: option.splits)

lemma captureFrame_le: "client_le s (captureFrame prev d t lms s)"
  by (auto simp: captureFrame_def client_le_def split: option.splits)

lemma handleMediaPipeUpdate_le: "client_le s (handleMediaPipeUpdate C s upd)"
proof -
  let ?d = "fst upd"
  let ?s1 = "updateSessionLock ?d (updateDeviation ?d (updateDetected ?d (updateTracking ?d s)))"
  have 1: "client_le s ?s1"
    by (rule client_le_trans[OF updateTracking_le
          client_le_trans[OF updateDetected_le client_le_trans[OF updateDeviation_le updateSessionLock_le] ] ])
  have 2: "client_le s (captureFrame p ?d t lms (updateMaxROM C lms (updateWristMax ?d ?s1)))" for p t lms
    by (rule client_le_trans[OF 1 client_le_trans[OF updateWristMax_le client_le_trans[OF updateMaxROM_le captureFrame_le] ] ])
  show ?thesis
    unfolding handleMediaPipeUpdate_def Let_def using 1 2 by (auto split: option.splits)
qed

text \<open>
  Claim C2.  Every maximum the session keeps is at least what it was before the next frame
  or repetition is folded in: on the server for one motion frame, for one repetition, for a
  list of repetitions extended by one and for the final update of the wrist maxima; on the
  recording page for one tracker update and for a run of updates extended by one.
\<close>

theorem session_maxima_monotone:
  "maxima_le m (frameStep m frame) \<and>
   maxima_le m (repStep m rep) \<and>
   maxima_le (foldl repStep m reps) (foldl repStep m (reps @ [rep])) \<and>
   maxima_le m (finalWrist m) \<and>
   client_le s (handleMediaPipeUpdate calculateCurrentROM s upd) \<and>
   client_le (foldl (handleMediaPipeUpdate calculateCurrentROM) s upds)
             (foldl (handleMediaPipeUpdate calculateCurrentROM) s (upds @ [upd]))"
  by (simp add: frameStep_le repStep_le finalWrist_le handleMediaPipeUpdate_le)

theorem session_maxima_monotone_witness:
  "maxima_le exampleMaxima (repStep exampleMaxima mixedRepetition)
   \<and> maxMcpAngle (repStep exampleMaxima mixedRepetition) = Some 40
   \<and> maxPipAngle (repStep exampleMaxima mixedRepetition) = Some 60
   \<and> wristFlexionAngle (repStep exampleMaxima mixedRepetition) = Some 50
   \<and> wristExtensionAngle (repStep exampleMaxima mixedRepetition) = Some 25"
  using session_maxima_monotone[of exampleMaxima exampleFrame mixedRepetition "[]" lockedLeft noCurrentROM "(reportsRight, 3000)" "[]"]
  by (simp add: repStep_def romStep_def wristStep_def frameStep_def exampleMaxima_def mixedRepetition_def Let_def)

section \<open>The Kapandji session score is a ratchet\<close>

lemma maxScoreLoop_eq:
  "maxScoreLoop threshold ladder best frames =
     Max (insert best (calculateKapandjiScore threshold ladder ` set frames))"
proof (induction frames arbitrary: best)
  case Nil
  show ?case by simp
next
  case (Cons f fs)
  let ?s = "calculateKapandjiScore threshold ladder f"
  let ?S = "calculateKapandjiScore threshold ladder ` set fs"
  have fin: "finite ?S" by simp
  have "maxScoreLoop threshold ladder best (f # fs) = Max (insert (max best ?s) ?S)"
    using Cons[of "if ?s > best then ?s else best"] by (simp add: Let_def max_def not_less)
  also have "\<dots> = Max (insert best (insert ?s ?S))"
  proof (cases "?S = {}")
    case True
    thus ?thesis by simp
  next
    case False
    thus ?thesis using fin by (simp add: max.assoc)
  qed
  finally show ?case by simp
qed

lemma maxScoreLoop_append:
  "maxScoreLoop threshold ladder best (frames @ later) =
     maxScoreLoop threshold ladder (maxScoreLoop threshold ladder best frames) later"
  by (induction frames arbitrary: best) (simp_all add: Let_def)

lemma maxScoreLoop_ge: "best \<le> maxScoreLoop threshold ladder best frames"
  by (simp add: maxScoreLoop_eq)

lemma highestRung_lt:
  "best < rung \<Longrightarrow> highestRung t tip targets rung best < rung + length targets"
proof (induction targets arbitrary: rung best)
  case Nil
  then show ?case by simp
next
  case (Cons x xs)
  have "(if distance tip x < t then rung else best) < Suc rung" using Cons.prems by simp
  from Cons.IH[OF this] show ?case by simp
qed

lemma kapandji_range: "calculateKapandjiScore threshold ladder lms \<le> 10"
proof (cases "length lms < 21")
  case True
  then show ?thesis by (simp add: calculateKapandjiScore_def)
next
  case False
  have "highestRung threshold (lms ! 4) (take 10 (ladder lms)) 1 0 < 1 + length (take 10 (ladder lms))"
    by (rule highestRung_lt) simp
  thus ?thesis using False by (simp add: calculateKapandjiScore_def)
qed


text \<open>
  Claim C3.  The session score is the maximum of the per-frame rungs (0 when there is no
  frame, the maximum over the frames otherwise), and frames appended to the sequence never
  lower it.
\<close>

theorem kapandji_session_score_is_max:
  "calculateMaxKapandjiScore threshold ladder frames =
      Max (insert 0 (calculateKapandjiScore threshold ladder ` set frames))
   \<and> (frames \<noteq> [] \<longrightarrow>
        calculateMaxKapandjiScore threshold ladder frames =
          Max (calculateKapandjiScore threshold ladder ` set frames))
   \<and> calculateMaxKapandjiScore threshold ladder frames
        \<le> calculateMaxKapandjiScore threshold ladder (frames @ later)"
proof -
  let ?S = "calculateKapandjiScore threshold ladder ` set frames"
  have 1: "calculateMaxKapandjiScore threshold ladder frames = Max (insert 0 ?S)"
    by (simp add: calculateMaxKapandjiScore_def maxScoreLoop_eq)
  have 2: "Max (insert 0 ?S) = Max ?S" if "frames \<noteq> []"
  proof -
    have "?S \<noteq> {}" "finite ?S" using that by auto
    thus ?thesis by (simp add: max_def)
  qed
  have 3: "calculateMaxKapandjiScore threshold ladder frames
        \<le> calculateMaxKapandjiScore threshold ladder (frames @ later)"
    by (simp add: calculateMaxKapandjiScore_def maxScoreLoop_append maxScoreLoop_ge)
  show ?thesis using 1 2 3 by simp
qed

lemma flatHand_nth: "i < 21 \<Longrightarrow> flatHand ! i = (0, 0, 0)"
  by (simp add: flatHand_def)

lemma distance_values:
  "distance (1, 0, 0) (1, 0, 0) = 0" "distance (1, 0, 0) (0, 0, 0) = 1"
  by (simp_all add: distance_def)

lemma example_scores:
  "calculateKapandjiScore exampleThreshold exampleLadder thumbOnFirst = 1"
  "calculateKapandjiScore exampleThreshold exampleLadder thumbAway = 0"
  by (simp_all add: calculateKapandjiScore_def exampleLadder_def thumbOnFirst_def thumbAway_def
        flatHand_nth distance_values flatHand_def exampleThreshold_def)

theorem kapandji_session_score_is_max_witness:
  "[thumbOnFirst, thumbAway] \<noteq> []
   \<and> calculateMaxKapandjiScore exampleThreshold exampleLadder [thumbOnFirst, thumbAway] = 1
   \<and> Max (calculateKapandjiScore exampleThreshold exampleLadder ` set [thumbOnFirst, thumbAway]) = 1
   \<and> calculateMaxKapandjiScore exampleThreshold exampleLadder ([thumbOnFirst, thumbAway] @ [thumbAway]) = 1"
  using kapandji_session_score_is_max[of exampleThreshold exampleLadder "[thumbOnFirst, thumbAway]" "[thumbAway]"]
  by (simp add: calculateMaxKapandjiScore_def example_scores Let_def)

section \<open>The session hand type stays locked\<close>

lemma sht_updateTracking [simp]: "sessionHandType (updateTracking d s) = sessionHandType s"
  by (simp add: updateTracking_def)

lemma sht_updateDetected [simp]: "sessionHandType (updateDetected d s) = sessionHandType s"
  by (simp add: updateDetected_def Let_def split: option.splits)

lemma sht_updateDeviation [simp]: "sessionHandType (updateDeviation d s) = sessionHandType s"
  by (simp add: updateDeviation_def Let_def split: option.splits)

lemma sht_updateWristMax [simp]: "sessionHandType (updateWristMax d s) = sessionHandType s"
  by (simp add: updateWristMax_def split: option.splits)

lemma sht_updateMaxROM [simp]: "sessionHandType (updateMaxROM C lms s) = sessionHandType s"
  by (simp add: updateMaxROM_def split: option.splits)

lemma sht_captureFrame [simp]: "sessionHandType (captureFrame p d t lms s) = sessionHandType s"
  by (simp add: captureFrame_def split: option.splits)



lemma rmd_updateTracking [simp]: "recordingMotionData (updateTracking d s) = recordingMotionData s"
  by (simp add: updateTracking_def)

lemma rmd_updateDetected [simp]: "recordingMotionData (updateDetected d s) = recordingMotionData s"
  by (simp add: updateDetected_def Let_def split: option.splits)

lemma rmd_updateDeviation [simp]: "recordingMotionData (updateDeviation d s) = recordingMotionData s"
  by (simp add: updateDeviation_def Let_def split: option.splits)

lemma rmd_updateWristMax [simp]: "recordingMotionData (updateWristMax d s) = recordingMotionData s"
  by (simp add: updateWristMax_def split: option.splits)

lemma rmd_updateMaxROM [simp]: "recordingMotionData (updateMaxROM C lms s) = recordingMotionData s"
  by (simp add: updateMaxROM_def split: option.splits)

lemma rmd_updateSessionLock [simp]: "recordingMotionData (updateSessionLock d s) = recordingMotionData s"
  by (simp add: updateSessionLock_def split: option.splits)




lemma first_lock:
  "sessionHandType s = UNKNOWN \<Longrightarrow> lockedHandType (fst upd) = Some h \<Longrightarrow> h \<noteq> UNKNOWN \<Longrightarrow>
   sessionHandType (handleMediaPipeUpdate C s upd) = h"
  by (simp add: handleMediaPipeUpdate_def Let_def updateSessionLock_def split: option.splits)







section \<open>Ranges of the joint angles and of the total active motion\<close>

lemma jointAngle_bounds: "0 \<le> jointAngle eps v1 v2 \<and> jointAngle eps v1 v2 \<le> 180"
  using arccos_deg_bounds[of "vdot (unit_eps eps v1) (unit_eps eps v2)"]
  by (simp add: jointAngle_def DEG_def)

lemma jointAngle_opposite:
  "120 < jointAngle (1 / 10 ^ 9) (1, 0, 0) (- 1, 0, 0)" "120 < jointAngle (1 / 10 ^ 9) (- 1, 0, 0) (1, 0, 0)"
proof -
  let ?e = "1 / 10 ^ 9 :: real"
  let ?d = "- (1 / ((1 + ?e) * (1 + ?e)))"
  have n1: "vnorm (1, 0, 0) = 1" "vnorm (- 1, 0, 0) = 1" by (simp_all add: vnorm_def vdot_def)
  have d: "vdot (unit_eps ?e (1, 0, 0)) (unit_eps ?e (- 1, 0, 0)) = ?d"
          "vdot (unit_eps ?e (- 1, 0, 0)) (unit_eps ?e (1, 0, 0)) = ?d"
    by (simp_all add: unit_eps_def n1 vdot_def)
  have r: "- 1 \<le> ?d" "?d < - (1/2)" by simp_all
  have cl: "clip (- 1) 1 ?d = ?d" using r by (intro clip_id) linarith+
  have "arccos (- (1/2)) < arccos ?d" using r by (intro arccos_less_arccos) linarith+
  hence "2 * pi / 3 < arccos ?d" by (simp only: arccos_minus_one_half)
  hence "2 * pi / 3 * (180 / pi) < arccos ?d * (180 / pi)"
    by (intro mult_strict_right_mono) auto
  hence "120 < arccos ?d * (180 / pi)" by simp
  thus "120 < jointAngle (1 / 10 ^ 9) (1, 0, 0) (- 1, 0, 0)" "120 < jointAngle (1 / 10 ^ 9) (- 1, 0, 0) (1, 0, 0)"
    unfolding jointAngle_def d cl by simp_all
qed

text \<open>
  Claim C6, as stated, fails for the total active motion: a finger whose landmarks fold back
  on themselves (wrist and PIP and fingertip at the origin, MCP and DIP at distance 1 on the
  x axis) has three joint angles above 120 degrees each, so the sum exceeds 300.
\<close>

theorem tam_exceeds_300:
  "\<not> ja_totalActiveRom (calculateFingerROM (1 / 10 ^ 9) (0, 0, 0) (1, 0, 0) (0, 0, 0) (1, 0, 0) (0, 0, 0)) \<le> 300"
proof -
  have "ja_totalActiveRom (calculateFingerROM (1 / 10 ^ 9) (0, 0, 0) (1, 0, 0) (0, 0, 0) (1, 0, 0) (0, 0, 0))
      = jointAngle (1 / 10 ^ 9) (1, 0, 0) (- 1, 0, 0) + jointAngle (1 / 10 ^ 9) (- 1, 0, 0) (1, 0, 0)
        + jointAngle (1 / 10 ^ 9) (1, 0, 0) (- 1, 0, 0)"
    by (simp add: calculateFingerROM_def Let_def vsub_def)
  thus ?thesis using jointAngle_opposite by linarith
qed

text \<open>
  Claim C6, amended.  Every joint angle lies in [0, 180], for the finger joints and for the
  magnitude of the wrist angle of the reference module, and the total active motion of a
  finger, the sum of its three joint angles, lies in [0, 540].
\<close>

theorem joint_angle_and_tam_bounds:
  "0 \<le> jointAngle eps v1 v2 \<and> jointAngle eps v1 v2 \<le> 180 \<and>
   0 \<le> mcpAngle (calculateFingerROM eps wrist mcp pip dip tip) \<and> mcpAngle (calculateFingerROM eps wrist mcp pip dip tip) \<le> 180 \<and>
   0 \<le> pipAngle (calculateFingerROM eps wrist mcp pip dip tip) \<and> pipAngle (calculateFingerROM eps wrist mcp pip dip tip) \<le> 180 \<and>
   0 \<le> dipAngle (calculateFingerROM eps wrist mcp pip dip tip) \<and> dipAngle (calculateFingerROM eps wrist mcp pip dip tip) \<le> 180 \<and>
   0 \<le> ja_totalActiveRom (calculateFingerROM eps wrist mcp pip dip tip) \<and>
   ja_totalActiveRom (calculateFingerROM eps wrist mcp pip dip tip) \<le> 540 \<and>
   (frame_angle f = Inr a \<longrightarrow> \<bar>a\<bar> \<le> 180)"
proof -
  note b = jointAngle_bounds[of eps "vsub mcp wrist" "vsub pip mcp"]
           jointAngle_bounds[of eps "vsub pip mcp" "vsub dip pip"]
           jointAngle_bounds[of eps "vsub dip pip" "vsub tip dip"]
  show ?thesis using b jointAngle_bounds[of eps v1 v2] frame_angle_abs[of f a]
    by (simp add: calculateFingerROM_def Let_def)
qed

lemma jointAngle_right: "jointAngle eps (1, 0, 0) (0, 1, 0) = 90"
  by (simp add: jointAngle_def unit_eps_def vdot_def clip_def arccos_0)

theorem joint_angle_and_tam_bounds_witness:
  "frame_angle [R_wrist, R_wrist, R_hand] = Inr 90 \<and> \<bar>90 :: real\<bar> \<le> 180
   \<and> jointAngle (1 / 10 ^ 9) (1, 0, 0) (0, 1, 0) = 90
   \<and> ja_totalActiveRom (calculateFingerROM (1 / 10 ^ 9) (0, 0, 0) (1, 0, 0) (0, 0, 0) (1, 0, 0) (0, 0, 0)) \<le> 540"
proof -
  have l: "length R_wrist = 3" "length R_hand = 3" by (simp_all add: R_wrist_def R_hand_def)
  show ?thesis
    using joint_angle_and_tam_bounds[of "1 / 10 ^ 9" "(1, 0, 0)" "(0, 1, 0)" "(0, 0, 0)" "(1, 0, 0)" "(0, 0, 0)"
             "(1, 0, 0)" "(0, 0, 0)" "[R_wrist, R_wrist, R_hand]" 90]
          frame_angle_zero_forearm[OF l] jointAngle_right[of "1 / 10 ^ 9"]
    by simp
qed

section \<open>The completion handler: gating by temporal quality, and what it depends on\<close>

lemma fingerCalculation_rom:
  assumes "frames \<noteq> []" "name \<noteq> Some ''Kapandji Score''" "R (map formatFrame frames) = Some rom"
  shows "fingerCalculation K R name frames v = romBranch v rom"
  using assms by (simp add: fingerCalculation_def)

lemma gated_zero:
  "ge_threshold q \<Longrightarrow> finger = Some f \<Longrightarrow> field f = JNum 0 \<Longrightarrow> gated q finger field = None"
  by (simp add: gated_def)

lemma gated_missing: "gated q None field = None"
  by (simp add: gated_def)

lemma gated_below: "\<not> ge_threshold q \<Longrightarrow> gated q finger field = None"
  by (simp add: gated_def)

lemma gated_keeps:
  "ge_threshold q \<Longrightarrow> finger = Some f \<Longrightarrow> field f = JNum x \<Longrightarrow> x \<noteq> 0 \<Longrightarrow> gated q finger field = Some x"
  by (simp add: gated_def)

lemma complete_fingers:
  assumes "repetitionData b = Some reps" "allMotionFrames reps \<noteq> []"
    "getAssessmentName e aid \<noteq> Some ''Kapandji Score''"
    "R (map formatFrame (allMotionFrames reps)) = Some rom"
  shows "ua_indexFingerRom (completeHandler K R e u aid b) = gated (tq_index (qualityOrEmpty (rom_temporalQuality rom))) (rom_index rom) f_totalActiveRom"
    "ua_middleFingerRom (completeHandler K R e u aid b) = gated (tq_middle (qualityOrEmpty (rom_temporalQuality rom))) (rom_middle rom) f_totalActiveRom"
    "ua_ringFingerRom (completeHandler K R e u aid b) = gated (tq_ring (qualityOrEmpty (rom_temporalQuality rom))) (rom_ring rom) f_totalActiveRom"
    "ua_pinkyFingerRom (completeHandler K R e u aid b) = gated (tq_pinky (qualityOrEmpty (rom_temporalQuality rom))) (rom_pinky rom) f_totalActiveRom"
    "ua_middleFingerMcp (completeHandler K R e u aid b) = gated (tq_middle (qualityOrEmpty (rom_temporalQuality rom))) (rom_middle rom) f_mcpAngle"
    "ua_middleFingerPip (completeHandler K R e u aid b) = gated (tq_middle (qualityOrEmpty (rom_temporalQuality rom))) (rom_middle rom) f_pipAngle"
    "ua_middleFingerDip (completeHandler K R e u aid b) = gated (tq_middle (qualityOrEmpty (rom_temporalQuality rom))) (rom_middle rom) f_dipAngle"
    "ua_ringFingerMcp (completeHandler K R e u aid b) = gated (tq_ring (qualityOrEmpty (rom_temporalQuality rom))) (rom_ring rom) f_mcpAngle"
    "ua_ringFingerPip (completeHandler K R e u aid b) = gated (tq_ring (qualityOrEmpty (rom_temporalQuality rom))) (rom_ring rom) f_pipAngle"
    "ua_ringFingerDip (completeHandler K R e u aid b) = gated (tq_ring (qualityOrEmpty (rom_temporalQuality rom))) (rom_ring rom) f_dipAngle"
    "ua_pinkyFingerMcp (completeHandler K R e u aid b) = gated (tq_pinky (qualityOrEmpty (rom_temporalQuality rom))) (rom_pinky rom) f_mcpAngle"
    "ua_pinkyFingerPip (completeHandler K R e u aid b) = gated (tq_pinky (qualityOrEmpty (rom_temporalQuality rom))) (rom_pinky rom) f_pipAngle"
    "ua_pinkyFingerDip (completeHandler K R e u aid b) = gated (tq_pinky (qualityOrEmpty (rom_temporalQuality rom))) (rom_pinky rom) f_dipAngle"
  using assms
  by (simp_all add: completeHandler_def measurements_def Let_def fingerCalculation_rom romBranch_def)

lemma example_frames: "allMotionFrames [exampleRepetition] = [exampleFrame]"
  by (simp add: allMotionFrames_def exampleRepetition_def)


lemma zero_index_like_missing:
  assumes "rom_index rom = Some f" "f_totalActiveRom f = JNum 0"
  shows "romBranch v rom = romBranch v (rom\<lparr>rom_index := None\<rparr>)"
  using assms by (simp add: romBranch_def gated_def Let_def)

text \<open>
  Claim C4.  A finger whose temporal quality is below the threshold is stored as null
  (lemma \<open>gated_below\<close>), and a value other than 0 of an accepted finger is kept (lemma
  \<open>gated_keeps\<close>).  A computed value of 0 of an accepted finger is not kept: with quality 0.9
  for every finger, an index finger whose total active motion is 0 and a middle finger
  whose MCP angle is 0, the stored index finger ROM and the stored middle finger MCP angle
  are null, while the middle finger PIP angle of 95 is stored.
\<close>

theorem accepted_zero_is_not_kept:
  "ge_threshold (tq_index goodQuality) \<and>
   ua_indexFingerRom (completeHandler K (\<lambda>frames. Some zeroIndexROM) exampleEnv 1 1 exampleBody) = None \<and>
   ua_middleFingerMcp (completeHandler K (\<lambda>frames. Some zeroIndexROM) exampleEnv 1 1 exampleBody) = None \<and>
   ua_middleFingerPip (completeHandler K (\<lambda>frames. Some zeroIndexROM) exampleEnv 1 1 exampleBody) = Some 95"
proof -
  have b: "repetitionData exampleBody = Some [exampleRepetition]" by (simp add: exampleBody_def)
  have f: "allMotionFrames [exampleRepetition] \<noteq> []" by (simp add: example_frames)
  have n: "getAssessmentName exampleEnv 1 \<noteq> Some ''Kapandji Score''" by (simp add: exampleEnv_def)
  note c = complete_fingers[where R = "\<lambda>frames. Some zeroIndexROM" and rom = zeroIndexROM and K = K and u = 1,
      OF b f n refl]
  show ?thesis
    unfolding c
    by (simp add: zeroIndexROM_def goodQuality_def qualityOrEmpty_def gated_def zeroFinger_def flexedFinger_def
        TEMPORAL_QUALITY_THRESHOLD_def)
qed

text \<open>
  Claim C9.  In the branch of the handler that runs the finger calculator (repetition data
  with at least one motion frame, an assessment other than the Kapandji one, a result with
  temporal quality scores): for a finger whose quality passes the threshold, a total active
  motion of exactly 0 and a joint angle of exactly 0 are stored as null.  For the index
  finger the whole stored record is then the one of a result in which the finger is missing.
\<close>

theorem zero_value_stored_as_null:
  assumes "repetitionData b = Some reps" "allMotionFrames reps \<noteq> []"
    "getAssessmentName e assessmentId \<noteq> Some ''Kapandji Score''"
    "calculateAllFingersMaxROM (map formatFrame (allMotionFrames reps)) = Some rom"
    "rom_temporalQuality rom = Some tq"
  shows
   "(ge_threshold (tq_index tq) \<and> rom_index rom = Some f \<and> f_totalActiveRom f = JNum 0 \<longrightarrow>
       ua_indexFingerRom (completeHandler K calculateAllFingersMaxROM e userId assessmentId b) = None
       \<and> completeHandler K calculateAllFingersMaxROM e userId assessmentId b
           = completeHandler K (\<lambda>frames. Some (rom\<lparr>rom_index := None\<rparr>)) e userId assessmentId b) \<and>
    (ge_threshold (tq_middle tq) \<and> rom_middle rom = Some f \<longrightarrow>
       (f_totalActiveRom f = JNum 0 \<longrightarrow>
          ua_middleFingerRom (completeHandler K calculateAllFingersMaxROM e userId assessmentId b) = None) \<and>
       (f_mcpAngle f = JNum 0 \<longrightarrow>
          ua_middleFingerMcp (completeHandler K calculateAllFingersMaxROM e userId assessmentId b) = None) \<and>
       (f_pipAngle f = JNum 0 \<longrightarrow>
          ua_middleFingerPip (completeHandler K calculateAllFingersMaxROM e userId assessmentId b) = None) \<and>
       (f_dipAngle f = JNum 0 \<longrightarrow>
          ua_middleFingerDip (completeHandler K calculateAllFingersMaxROM e userId assessmentId b) = None)) \<and>
    (ge_threshold (tq_ring tq) \<and> rom_ring rom = Some f \<longrightarrow>
       (f_totalActiveRom f = JNum 0 \<longrightarrow>
          ua_ringFingerRom (completeHandler K calculateAllFingersMaxROM e userId assessmentId b) = None) \<and>
       (f_mcpAngle f = JNum 0 \<longrightarrow>
          ua_ringFingerMcp (completeHandler K calculateAllFingersMaxROM e userId assessmentId b) = None) \<and>
       (f_pipAngle f = JNum 0 \<longrightarrow>
          ua_ringFingerPip (completeHandler K calculateAllFingersMaxROM e userId assessmentId b) = None) \<and>
       (f_dipAngle f = JNum 0 \<longrightarrow>
          ua_ringFingerDip (completeHandler K calculateAllFingersMaxROM e userId assessmentId b) = None)) \<and>
    (ge_threshold (tq_pinky tq) \<and> rom_pinky rom = Some f \<longrightarrow>
       (f_totalActiveRom f = JNum 0 \<longrightarrow>
          ua_pinkyFingerRom (completeHandler K calculateAllFingersMaxROM e userId assessmentId b) = None) \<and>
       (f_mcpAngle f = JNum 0 \<longrightarrow>
          ua_pinkyFingerMcp (completeHandler K calculateAllFingersMaxROM e userId assessmentId b) = None) \<and>
       (f_pipAngle f = JNum 0 \<longrightarrow>
          ua_pinkyFingerPip (completeHandler K calculateAllFingersMaxROM e userId assessmentId b) = None) \<and>
       (f_dipAngle f = JNum 0 \<longrightarrow>
          ua_pinkyFingerDip (completeHandler K calculateAllFingersMaxROM e userId assessmentId b) = None))"
proof -
  note c = complete_fingers[where R = calculateAllFingersMaxROM and K = K and u = userId, OF assms(1-4)]
  have q: "qualityOrEmpty (rom_temporalQuality rom) = tq" using assms(5) by (simp add: qualityOrEmpty_def)
  have same: "completeHandler K calculateAllFingersMaxROM e userId assessmentId b
           = completeHandler K (\<lambda>frames. Some (rom\<lparr>rom_index := None\<rparr>)) e userId assessmentId b"
    if "rom_index rom = Some f" "f_totalActiveRom f = JNum 0"
    using assms(1-4) zero_index_like_missing[OF that]
    by (simp add: completeHandler_def measurements_def fingerCalculation_rom Let_def)
  show ?thesis
    unfolding c q using same by (simp add: gated_zero)
qed

theorem zero_value_stored_as_null_witness:
  "repetitionData exampleBody = Some [exampleRepetition]
   \<and> ge_threshold (tq_pinky goodQuality) \<and> rom_pinky zeroPinkyROM = Some zeroFinger
   \<and> f_totalActiveRom zeroFinger = JNum 0
   \<and> ua_pinkyFingerRom (completeHandler (\<lambda>frames. None) (\<lambda>frames. Some zeroPinkyROM) exampleEnv 1 1 exampleBody) = None
   \<and> ua_pinkyFingerDip (completeHandler (\<lambda>frames. None) (\<lambda>frames. Some zeroPinkyROM) exampleEnv 1 1 exampleBody) = None"
proof -
  have b: "repetitionData exampleBody = Some [exampleRepetition]" by (simp add: exampleBody_def)
  have f: "allMotionFrames [exampleRepetition] \<noteq> []" by (simp add: example_frames)
  have n: "getAssessmentName exampleEnv 1 \<noteq> Some ''Kapandji Score''" by (simp add: exampleEnv_def)
  have t: "rom_temporalQuality zeroPinkyROM = Some goodQuality" by (simp add: zeroPinkyROM_def)
  have g: "ge_threshold (tq_pinky goodQuality)" "rom_pinky zeroPinkyROM = Some zeroFinger"
    "f_totalActiveRom zeroFinger = JNum 0" "f_dipAngle zeroFinger = JNum 0"
    by (simp_all add: goodQuality_def zeroPinkyROM_def zeroFinger_def TEMPORAL_QUALITY_THRESHOLD_def)
  show ?thesis
    using zero_value_stored_as_null[where calculateAllFingersMaxROM = "\<lambda>frames. Some zeroPinkyROM"
        and K = "\<lambda>frames. None" and f = zeroFinger and userId = 1, OF b f n refl t] b g
    by simp
qed
section \<open>The recording and the clock\<close>

text \<open>
  The callback reads the clock for two things: the timestamp of a recorded frame, and the
  decision whether the frame falls into the ten seconds of the recording.  The lemmas of
  this section follow a recording through the page, the request and the handler, and show
  that the clock enters the stored record by that decision alone.
\<close>

subsection \<open>The page state without its clock readings\<close>







lemma rst_updates [simp]:
  "recordingStartTime (updateTracking d s) = recordingStartTime s"
  "recordingStartTime (updateDetected d s) = recordingStartTime s"
  "recordingStartTime (updateDeviation d s) = recordingStartTime s"
  "recordingStartTime (updateSessionLock d s) = recordingStartTime s"
  "recordingStartTime (updateWristMax d s) = recordingStartTime s"
  "recordingStartTime (updateMaxROM C lms s) = recordingStartTime s"
  "recordingStartTime (captureFrame p d t lms s) = recordingStartTime s"
  by (simp_all add: updateTracking_def updateDetected_def updateDeviation_def updateSessionLock_def
        updateWristMax_def updateMaxROM_def captureFrame_def Let_def split: option.splits)

lemma rst_handle [simp]: "recordingStartTime (handleMediaPipeUpdate C s upd) = recordingStartTime s"
  by (simp add: handleMediaPipeUpdate_def Let_def split: option.splits)









subsection \<open>The handler on two requests that differ in their last repetition\<close>











subsection \<open>From the page state to the request\<close>





lemma foldl_quality:
  "foldl (\<lambda>sum rep. sum + cr_qualityScore rep) a (xs @ [x]) = foldl (\<lambda>sum rep. sum + cr_qualityScore rep) a xs + cr_qualityScore x"
  by simp







subsection \<open>One update, inside and outside the ten seconds\<close>










section \<open>The DASH score\<close>

lemma foldl_plus: "foldl (\<lambda>acc value. acc + value) a xs = a + sum_list (xs :: real list)"
  by (induction xs arbitrary: a) simp_all

lemma answered_eq: "answered rs = filter (\<lambda>value. value > 0) (map snd rs)"
  by (induction rs) (auto simp: answered_def)

lemma dash_eq:
  "calculateDashScore rs =
     (if length (answered rs) < 27 then None
      else Some (round1 (((mean (answered rs) - 1) / 4) * 100)))"
  by (simp add: calculateDashScore_def Let_def answered_eq foldl_plus mean_def round1_def math_round_def)

lemma sum_list_bounds:
  assumes "\<forall>v \<in> set xs. 1 \<le> v \<and> v \<le> (5::real)"
  shows "real (length xs) \<le> sum_list xs \<and> sum_list xs \<le> 5 * real (length xs)"
  using assms by (induction xs) (auto simp: algebra_simps)

lemma mean_bounds:
  assumes "xs \<noteq> []" "\<forall>v \<in> set xs. 1 \<le> v \<and> v \<le> (5::real)"
  shows "1 \<le> mean xs \<and> mean xs \<le> 5"
proof -
  have n: "0 < real (length xs)" using assms(1) by simp
  show ?thesis using sum_list_bounds[OF assms(2)] n
    by (simp add: mean_def field_simps)
qed

lemma round1_bounds: "0 \<le> x \<Longrightarrow> x \<le> 100 \<Longrightarrow> 0 \<le> round1 x \<and> round1 x \<le> 100"
proof -
  assume a: "0 \<le> x" "x \<le> 100"
  have "0 \<le> \<lfloor>x * 10 + 1 / 2\<rfloor>" using a by simp
  moreover have "\<lfloor>x * 10 + 1 / 2\<rfloor> \<le> 1000"
  proof -
    have "x * 10 + 1 / 2 < 1001" using a by simp
    hence "\<lfloor>x * 10 + 1 / 2\<rfloor> < 1001" by (simp add: floor_less_iff)
    thus ?thesis by simp
  qed
  ultimately show ?thesis by (simp add: round1_def)
qed

text \<open>
  Claim C10.  The function returns null exactly when fewer than 27 responses are positive.
  When it returns a score, the score is the mean of the positive responses, diminished by
  1, divided by 4, multiplied by 100 and rounded to one decimal place; and when every
  positive response is one of the values 1 to 5, the score lies in [0, 100].
\<close>

theorem dash_score_value_and_range:
  "(calculateDashScore responses = None \<longleftrightarrow> length (filter (\<lambda>(q, value). value > 0) responses) < 27)
   \<and> (\<forall>score. calculateDashScore responses = Some score \<longrightarrow>
         score = round1 (((mean (answered responses) - 1) / 4) * 100)
         \<and> ((\<forall>(q, value) \<in> set responses. value \<le> 0 \<or> (1 \<le> value \<and> value \<le> 5)) \<longrightarrow> 0 \<le> score \<and> score \<le> 100))"
proof -
  have len: "length (answered responses) = length (filter (\<lambda>(q, value). value > 0) responses)"
    by (simp add: answered_def)
  have 1: "calculateDashScore responses = None \<longleftrightarrow> length (filter (\<lambda>(q, value). value > 0) responses) < 27"
    by (simp add: dash_eq len)
  have 2: "0 \<le> score \<and> score \<le> 100"
    if s: "calculateDashScore responses = Some score"
    and v: "\<forall>(q, value) \<in> set responses. value \<le> 0 \<or> (1 \<le> value \<and> value \<le> 5)" for score
  proof -
    have ne: "answered responses \<noteq> []" using s by (auto simp: dash_eq split: if_splits)
    have "\<forall>x \<in> set (answered responses). 1 \<le> x \<and> x \<le> 5"
      using v by (fastforce simp: answered_def)
    from mean_bounds[OF ne this] have "0 \<le> ((mean (answered responses) - 1) / 4) * 100"
      "((mean (answered responses) - 1) / 4) * 100 \<le> 100" by simp_all
    from round1_bounds[OF this] show ?thesis using s by (simp add: dash_eq split: if_splits)
  qed
  show ?thesis using 1 2 by (auto simp: dash_eq split: if_splits)
qed

lemma moderate_score: "calculateDashScore moderateResponses = Some 50"
  by (simp add: calculateDashScore_def moderateResponses_def math_round_def Let_def)

theorem dash_score_value_and_range_witness:
  "length (filter (\<lambda>(q, value). value > 0) moderateResponses) = 27
   \<and> calculateDashScore moderateResponses = Some 50
   \<and> round1 (((mean (answered moderateResponses) - 1) / 4) * 100) = 50
   \<and> (0 :: real) \<le> 50 \<and> (50 :: real) \<le> 100"
proof -
  have v: "\<forall>(q, value) \<in> set moderateResponses. value \<le> 0 \<or> (1 \<le> value \<and> value \<le> 5)"
    by (simp add: moderateResponses_def)
  have n: "length (filter (\<lambda>(q, value). value > 0) moderateResponses) = 27"
    by (simp add: moderateResponses_def)
  show ?thesis
    using dash_score_value_and_range[of moderateResponses] moderate_score v n by auto
qed

end
